theory Spec2Isabelle
  imports Complex_Main "HOL-Library.Multiset"
begin

section \<open>PENTrack: geometry service and collision resolver\<close>

text \<open>
  A shallow embedding of \<^verbatim>\<open>src/src/geometry.cpp\<close> and of the integration
  and collision routines of \<^verbatim>\<open>src/particle.h\<close>.

  Conventions of the embedding.
  \<^item> \<^verbatim>\<open>double\<close> and \<^verbatim>\<open>long double\<close> are modelled as \<^typ>\<open>real\<close>:
    rounding, infinities and NaN are outside the model (the one division whose divisor
    can be zero is written out where it occurs).
  \<^item> Exceptions (\<^verbatim>\<open>throw std::runtime_error\<close>) and dereferences of an end
    iterator are values of the type \<open>error\<close>; a fallible routine returns
    \<open>error + 'a\<close> with \<open>Inl\<close> the error.
  \<^item> The triangle mesh, the ODE stepper and the virtual particle hooks
    (\<^verbatim>\<open>OnHit\<close>, \<^verbatim>\<open>OnStep\<close>) are not part of the files embedded here; they enter as
    function-valued parameters.
  \<^item> Console and file output (\<^verbatim>\<open>printf\<close>, \<^verbatim>\<open>cout\<close>, \<^verbatim>\<open>PrintHit\<close>, \<^verbatim>\<open>PrintTrack\<close>)
    has no effect on the computed state and is left out.
\<close>

subsection \<open>Errors\<close>

datatype error =
    CouldNotReadMaterial string
  | BothReflectionModels string
  | MaterialNotDefined string
  | IdenticalIDs
  | CouldNotFindSolid nat
  | InvalidDereference

subsection \<open>Materials (\<^verbatim>\<open>operator>>(std::istream&, material&)\<close>)\<close>

text \<open>
  The fields of \<^verbatim>\<open>material\<close> as \<^verbatim>\<open>geometry.cpp\<close> reads and writes them
  (the field \<^verbatim>\<open>name\<close> is called \<open>mat_name\<close> here).
\<close>

record material =
  mat_name :: string
  FermiReal :: real
  FermiImag :: real
  DiffProb :: real
  SpinflipProb :: real
  RMSRoughness :: real
  CorrelLength :: real
  LossPerBounce :: real
  MFPElastic :: real

text \<open>
  The input stream is modelled by the results of its successive numeric extractions:
  \<open>Some v\<close> when \<^verbatim>\<open>str >> d\<close> yields the number \<open>v\<close>, \<open>None\<close> when the
  characters at that position are not a number. A stream that ends early has no further
  entries. After the first failed extraction the stream stays in its failed state, so
  \<^verbatim>\<open>!str\<close> holds after the eight extractions exactly when one of the first
  eight entries is missing or \<open>None\<close>.
\<close>

type_synonym istream = "real option list"

fun extract_doubles :: "nat \<Rightarrow> istream \<Rightarrow> real list option" where
  "extract_doubles 0 str = Some []"
| "extract_doubles (Suc n) [] = None"
| "extract_doubles (Suc n) (None # str) = None"
| "extract_doubles (Suc n) (Some v # str) =
     (case extract_doubles n str of None \<Rightarrow> None | Some vs \<Rightarrow> Some (v # vs))"

definition read_material :: "string \<Rightarrow> istream \<Rightarrow> error + material" where
  "read_material nm str =
     (case extract_doubles 8 str of
        None \<Rightarrow> Inl (CouldNotReadMaterial nm)
      | Some vs \<Rightarrow>
          if vs ! 2 \<noteq> 0 \<and> (vs ! 4 \<noteq> 0 \<or> vs ! 5 \<noteq> 0)
          then Inl (BothReflectionModels nm)
          else Inr \<lparr> mat_name = nm, FermiReal = vs ! 0, FermiImag = vs ! 1,
                     DiffProb = vs ! 2, SpinflipProb = vs ! 3, RMSRoughness = vs ! 4,
                     CorrelLength = vs ! 5, LossPerBounce = vs ! 6, MFPElastic = vs ! 7 \<rparr>)"

subsection \<open>Solids and the geometry (\<^verbatim>\<open>TGeometry\<close>)\<close>

text \<open>
  The header declaring \<^verbatim>\<open>solid\<close>, \<^verbatim>\<open>TCollision\<close> and \<^verbatim>\<open>TGeometry\<close> is not
  among the embedded files; the records below hold the members that the embedded code
  uses. Solid IDs are compared with the \<^verbatim>\<open>unsigned\<close> argument of
  \<^verbatim>\<open>GetSolid\<close> and never enter arithmetic: they are natural numbers here.
  The members \<^verbatim>\<open>s\<close>, \<^verbatim>\<open>normal\<close>, \<^verbatim>\<open>ID\<close> of \<^verbatim>\<open>TCollision\<close> carry the
  prefix \<open>coll_\<close>.
\<close>

type_synonym vec3 = "real \<times> real \<times> real"

record solid =
  ID :: nat
  name :: string
  filename :: string
  mat :: material
  ignoretimes :: "(real \<times> real) list"

record TCollision =
  coll_s :: real
  coll_normal :: vec3
  coll_ID :: nat

text \<open>
  The mesh is an oracle: \<open>Collision p1 p2\<close> is what \<^verbatim>\<open>mesh.Collision\<close> returns for
  the segment, \<open>bbox_min\<close> the lower corner of \<^verbatim>\<open>mesh.GetBoundingBox()\<close>.
\<close>

record TGeometry =
  solids :: "solid list"
  defaultsolid :: solid
  Collision :: "vec3 \<Rightarrow> vec3 \<Rightarrow> TCollision list"
  bbox_min :: vec3

subsubsection \<open>The constructor\<close>

text \<open>
  One entry of the \<^verbatim>\<open>GEOMETRY\<close> section after \<^verbatim>\<open>operator>>(istream&, solid&)\<close>
  has parsed it: the ID read from the key, the mesh file name, the material name and the
  ignore times. The section is handed to the constructor as the list of its entries in
  iteration order.
\<close>

record entry =
  entry_ID :: nat
  entry_filename :: string
  entry_matname :: string
  entry_ignoretimes :: "(real \<times> real) list"

text \<open>\<^verbatim>\<open>std::transform\<close> over the \<^verbatim>\<open>MATERIALS\<close> section.\<close>

fun read_materials :: "(string \<times> istream) list \<Rightarrow> error + material list" where
  "read_materials [] = Inr []"
| "read_materials ((nm, str) # rest) =
     (case read_material nm str of
        Inl e \<Rightarrow> Inl e
      | Inr m \<Rightarrow> (case read_materials rest of Inl e \<Rightarrow> Inl e | Inr ms \<Rightarrow> Inr (m # ms)))"

text \<open>
  The loop over the \<^verbatim>\<open>GEOMETRY\<close> section. \<open>ReadFile\<close> stands for
  \<^verbatim>\<open>mesh.ReadFile\<close>, which returns the name of the solid it loaded. \<open>d\<close> is the
  default solid found so far and \<open>acc\<close> the vector \<^verbatim>\<open>solids\<close>.
\<close>

fun load_solids ::
  "material list \<Rightarrow> (string \<Rightarrow> nat \<Rightarrow> string) \<Rightarrow> entry list \<Rightarrow> solid \<Rightarrow> solid list
     \<Rightarrow> error + (solid \<times> solid list)" where
  "load_solids materials ReadFile [] d acc = Inr (d, acc)"
| "load_solids materials ReadFile (e # es) d acc =
     (case find (\<lambda>m. entry_matname e = mat_name m) materials of
        None \<Rightarrow> Inl (MaterialNotDefined (entry_matname e))
      | Some m \<Rightarrow>
          if entry_ID e = 1
          then load_solids materials ReadFile es
                 \<lparr> ID = entry_ID e, name = ''default solid'', filename = entry_filename e,
                   mat = m, ignoretimes = entry_ignoretimes e \<rparr> acc
          else load_solids materials ReadFile es d
                 (acc @ [\<lparr> ID = entry_ID e, name = ReadFile (entry_filename e) (entry_ID e),
                           filename = entry_filename e, mat = m,
                           ignoretimes = entry_ignoretimes e \<rparr>]))"

text \<open>
  \<^verbatim>\<open>std::unique(first, last, p)\<close>: every element equivalent to the last element kept
  is dropped; the function returns the end of the kept range, which differs from
  \<^verbatim>\<open>last\<close> exactly when an element was dropped.
\<close>

fun std_unique :: "('a \<Rightarrow> 'a \<Rightarrow> bool) \<Rightarrow> 'a list \<Rightarrow> 'a list" where
  "std_unique p [] = []"
| "std_unique p [x] = [x]"
| "std_unique p (x # y # xs) =
     (if p x y then std_unique p (x # xs) else x # std_unique p (y # xs))"

definition TGeometry_ctor ::
  "(string \<times> istream) list \<Rightarrow> entry list \<Rightarrow> (string \<Rightarrow> nat \<Rightarrow> string) \<Rightarrow> solid
     \<Rightarrow> (vec3 \<Rightarrow> vec3 \<Rightarrow> TCollision list) \<Rightarrow> vec3 \<Rightarrow> error + TGeometry" where
  "TGeometry_ctor MATERIALS GEOMETRY ReadFile d0 coll bb =
     (case read_materials MATERIALS of
        Inl e \<Rightarrow> Inl e
      | Inr materials \<Rightarrow>
          (case load_solids materials ReadFile GEOMETRY d0 [] of
             Inl e \<Rightarrow> Inl e
           | Inr (d, slds) \<Rightarrow>
               if length (std_unique (\<lambda>s1 s2. ID s1 = ID s2) slds) \<noteq> length slds
               then Inl IdenticalIDs
               else Inr \<lparr> solids = slds, defaultsolid = d, Collision = coll, bbox_min = bb \<rparr>))"

subsubsection \<open>\<^verbatim>\<open>TGeometry::GetSolid(const unsigned ID)\<close>\<close>

definition GetSolid :: "TGeometry \<Rightarrow> nat \<Rightarrow> error + solid" where
  "GetSolid g i =
     (case find (\<lambda>s. ID s = i) (solids g) of
        None \<Rightarrow> Inl (CouldNotFindSolid i)
      | Some sld \<Rightarrow> Inr sld)"

subsubsection \<open>\<^verbatim>\<open>TGeometry::GetCollisions\<close>\<close>

text \<open>
  Modelled from the spec: the order of \<^verbatim>\<open>TCollision\<close> (its \<^verbatim>\<open>operator<\<close>, declared
  in the absent header), "ordered by s ascending; ties break by solid ID ascending".
\<close>

definition coll_less :: "TCollision \<Rightarrow> TCollision \<Rightarrow> bool" where
  "coll_less c1 c2 \<longleftrightarrow>
     coll_s c1 < coll_s c2 \<or> (coll_s c1 = coll_s c2 \<and> coll_ID c1 < coll_ID c2)"

text \<open>
  \<^verbatim>\<open>multimap::emplace\<close>: the new pair goes behind every pair whose key is not
  greater than its key.
\<close>

fun emplace :: "TCollision \<times> bool \<Rightarrow> (TCollision \<times> bool) list \<Rightarrow> (TCollision \<times> bool) list" where
  "emplace kv [] = [kv]"
| "emplace kv (kv' # rest) =
     (if coll_less (fst kv) (fst kv') then kv # kv' # rest else kv' # emplace kv rest)"

definition is_ignored :: "solid \<Rightarrow> real \<Rightarrow> bool" where
  "is_ignored sld t = list_ex (\<lambda>its. t \<ge> fst its \<and> t < snd its) (ignoretimes sld)"

fun tag_collisions ::
  "TGeometry \<Rightarrow> real \<Rightarrow> real \<Rightarrow> TCollision list \<Rightarrow> (TCollision \<times> bool) list
     \<Rightarrow> error + (TCollision \<times> bool) list" where
  "tag_collisions g x1 x2 [] colls = Inr colls"
| "tag_collisions g x1 x2 (it # c) colls =
     (case GetSolid g (coll_ID it) of
        Inl e \<Rightarrow> Inl e
      | Inr sld \<Rightarrow>
          tag_collisions g x1 x2 c
            (emplace (it, is_ignored sld (x1 + (x2 - x1) * coll_s it)) colls))"

definition GetCollisions ::
  "TGeometry \<Rightarrow> real \<Rightarrow> vec3 \<Rightarrow> real \<Rightarrow> vec3 \<Rightarrow> error + (bool \<times> (TCollision \<times> bool) list)" where
  "GetCollisions g x1 p1 x2 p2 =
     (case tag_collisions g x1 x2 (Collision g p1 p2) [] of
        Inl e \<Rightarrow> Inl e
      | Inr colls \<Rightarrow> Inr (colls \<noteq> [], colls))"

subsubsection \<open>\<^verbatim>\<open>TGeometry::GetSolids\<close>\<close>

text \<open>
  \<^verbatim>\<open>find_if\<close> followed by \<^verbatim>\<open>erase\<close> removes the first element with the given
  ID; when there is none the solid is appended.
\<close>

fun erase_first :: "nat \<Rightarrow> (solid \<times> bool) list \<Rightarrow> (solid \<times> bool) list" where
  "erase_first i [] = []"
| "erase_first i (sb # rest) = (if ID (fst sb) = i then rest else sb # erase_first i rest)"

fun toggle_solids ::
  "TGeometry \<Rightarrow> (TCollision \<times> bool) list \<Rightarrow> (solid \<times> bool) list \<Rightarrow> error + (solid \<times> bool) list" where
  "toggle_solids g [] currentsolids = Inr currentsolids"
| "toggle_solids g (i # c) currentsolids =
     (if list_ex (\<lambda>sb. ID (fst sb) = coll_ID (fst i)) currentsolids
      then toggle_solids g c (erase_first (coll_ID (fst i)) currentsolids)
      else (case GetSolid g (coll_ID (fst i)) of
              Inl e \<Rightarrow> Inl e
            | Inr sld \<Rightarrow> toggle_solids g c (currentsolids @ [(sld, snd i)])))"

definition GetSolids :: "real \<Rightarrow> TGeometry \<Rightarrow> real \<Rightarrow> vec3 \<Rightarrow> error + (solid \<times> bool) list" where
  "GetSolids REFLECT_TOLERANCE g t p =
     (case bbox_min g of (xmin, ymin, zmin) \<Rightarrow>
        (case GetCollisions g t p t
                (xmin - REFLECT_TOLERANCE, ymin - REFLECT_TOLERANCE, zmin - REFLECT_TOLERANCE) of
           Inl e \<Rightarrow> Inl e
         | Inr (hit, c) \<Rightarrow>
             if hit then toggle_solids g c [(defaultsolid g, False)]
             else Inr [(defaultsolid g, False)]))"

subsection \<open>The particle (\<^verbatim>\<open>TParticle\<close>)\<close>

text \<open>
  A state vector \<^verbatim>\<open>long double y[6]\<close>: position \<open>y_0, y_1, y_2\<close> and velocity
  \<open>y_3, y_4, y_5\<close>.
\<close>

record yvec =
  y_0 :: real
  y_1 :: real
  y_2 :: real
  y_3 :: real
  y_4 :: real
  y_5 :: real

definition MAX_SAMPLE_DIST :: real where
  "MAX_SAMPLE_DIST = 0.01"

text \<open>
  The values of \<^verbatim>\<open>TParticle::ID\<close>, as its declaration documents them
  ("0: not classified; -1: survived until end of simulation; -2: hit outer boundaries;
  -3: numerical error; -4: decayed").
\<close>

definition ID_UNKNOWN :: int where "ID_UNKNOWN = 0"
definition ID_NOT_FINISH :: int where "ID_NOT_FINISH = - 1"
definition ID_HIT_BOUNDARIES :: int where "ID_HIT_BOUNDARIES = - 2"
definition ID_NRERROR :: int where "ID_NRERROR = - 3"
definition ID_DECAYED :: int where "ID_DECAYED = - 4"

text \<open>
  The constants of the absent \<^verbatim>\<open>globals.h\<close> that the embedded code reads are
  parameters.
\<close>

record globals =
  REFLECT_TOLERANCE :: real
  RELATIVISTIC_THRESHOLD :: real
  c_0 :: real
  ele_e :: real
  gravconst :: real

text \<open>The constant members \<^verbatim>\<open>q\<close>, \<^verbatim>\<open>m\<close>, \<^verbatim>\<open>mu\<close> of a particle species.\<close>

record species =
  sp_q :: real
  sp_m :: real
  sp_mu :: real

text \<open>
  What the embedded code reads of a \<^verbatim>\<open>TFieldManager\<close>: the entry \<^verbatim>\<open>B[3][0]\<close>
  that \<^verbatim>\<open>BField\<close> computes and the potential \<^verbatim>\<open>V\<close> that \<^verbatim>\<open>EField\<close> computes,
  both at \<open>(x, y, z, t)\<close>. The pointer \<^verbatim>\<open>field\<close> may be null.
\<close>

record TFieldManager =
  BField_abs :: "real \<Rightarrow> real \<Rightarrow> real \<Rightarrow> real \<Rightarrow> real"
  EField_V :: "real \<Rightarrow> real \<Rightarrow> real \<Rightarrow> real \<Rightarrow> real"

definition Ekin :: "globals \<Rightarrow> species \<Rightarrow> yvec \<Rightarrow> real" where
  "Ekin gl sp y =
     (let vend = sqrt (y_3 y * y_3 y + y_4 y * y_4 y + y_5 y * y_5 y) in
      if vend / c_0 gl < RELATIVISTIC_THRESHOLD gl
      then 0.5 * sp_m sp * vend * vend
      else (let gammarel = 1 / sqrt (1 - vend * vend / (c_0 gl * c_0 gl))
            in c_0 gl * c_0 gl * sp_m sp * (gammarel - 1)))"

text \<open>The body of \<^verbatim>\<open>TParticle::Epot\<close> (the method is virtual; this is the base class).\<close>

definition Epot :: "globals \<Rightarrow> species \<Rightarrow> real \<Rightarrow> yvec \<Rightarrow> int \<Rightarrow> TFieldManager option \<Rightarrow> real" where
  "Epot gl sp t y polarisation field =
     (case field of
        None \<Rightarrow> 0
      | Some f \<Rightarrow>
          (if sp_q sp \<noteq> 0 \<or> sp_mu sp \<noteq> 0
           then (if sp_mu sp \<noteq> 0
                 then - real_of_int polarisation * sp_mu sp / ele_e gl * BField_abs f (y_0 y) (y_1 y) (y_2 y) t
                 else 0)
                + (if sp_q sp \<noteq> 0
                   then sp_q sp / ele_e gl * EField_V f (y_0 y) (y_1 y) (y_2 y) t
                   else 0)
           else 0))
     + sp_m sp * gravconst gl * y_2 y"

text \<open>
  A \<^verbatim>\<open>const solid*\<close> as the collision routine forms it: the address of
  \<^verbatim>\<open>geom->solids[k]\<close>, or the address of the element of \<^verbatim>\<open>currentsolids\<close> with a
  given ID. Two such pointers are equal exactly when they are the same address.
\<close>

datatype solid_ptr = Geom nat | Current nat

text \<open>
  The members of \<^verbatim>\<open>TParticle\<close> that integration reads and writes (\<^verbatim>\<open>ID\<close> is
  called \<open>pID\<close>). \<^verbatim>\<open>currentsolids\<close> is a \<^verbatim>\<open>std::set<solid>\<close>; it is kept as the
  list of the IDs of its elements in iteration order, so that \<^verbatim>\<open>rbegin()\<close> is the
  last element (modelled from the spec: the set is "ordered by ID"; the comparison of
  \<^verbatim>\<open>solid\<close> is declared in the absent header). \<open>user\<close> stands for the data of
  the derived class, which the hooks may change.
\<close>

record 'u TParticle =
  pID :: int
  tau :: real
  maxtraj :: real
  tstart :: real
  tend :: real
  ystart :: yvec
  yend :: yvec
  polstart :: int
  polend :: int
  Hmax :: real
  lend :: real
  Nstep :: int
  currentsolids :: "nat list"
  user :: 'u

text \<open>
  What a hook hands back: its return value, the end point of the segment, which it may
  alter, the particle fate and the data of the derived class; \<^verbatim>\<open>OnHit\<close> also the
  pointer \<^verbatim>\<open>entering\<close>, which it takes by reference. The hooks are documented to alter
  the end point only; they get the start point by value here.
\<close>

record 'u hit_result =
  hr_changed :: bool
  hr_x2 :: real
  hr_y2 :: yvec
  hr_entering :: solid_ptr
  hr_ID :: int
  hr_user :: 'u

record 'u step_result =
  sr_changed :: bool
  sr_x2 :: real
  sr_y2 :: yvec
  sr_ID :: int
  sr_user :: 'u

text \<open>
  \<^verbatim>\<open>particle.h\<close> calls the geometry through \<^verbatim>\<open>CheckSegment\<close>, a
  \<^verbatim>\<open>GetCollisions\<close> that fills a \<^verbatim>\<open>set<TCollision>\<close>, the array
  \<^verbatim>\<open>solids\<close> and a \<^verbatim>\<open>GetSolids\<close> that fills \<^verbatim>\<open>currentsolids\<close>; these are
  not the signatures that \<^verbatim>\<open>geometry.cpp\<close> defines, so they enter as parameters,
  together with the pure virtual hooks. \<open>Collisions\<close> gives the records of the set
  in iteration order, and \<^verbatim>\<open>GetCollisions\<close> returns true exactly when there is one;
  \<open>InitialSolids t y\<close> gives the IDs that \<^verbatim>\<open>GetSolids(t, y, currentsolids)\<close>
  puts into the set.
\<close>

record 'u world =
  CheckSegment :: "yvec \<Rightarrow> yvec \<Rightarrow> bool"
  Collisions :: "real \<Rightarrow> yvec \<Rightarrow> real \<Rightarrow> yvec \<Rightarrow> TCollision list"
  geom_solids :: "nat \<Rightarrow> solid"
  InitialSolids :: "real \<Rightarrow> yvec \<Rightarrow> nat list"
  OnHit :: "real \<Rightarrow> yvec \<Rightarrow> real \<Rightarrow> yvec \<Rightarrow> vec3 \<Rightarrow> solid_ptr \<Rightarrow> solid_ptr \<Rightarrow> int \<Rightarrow> 'u \<Rightarrow> 'u hit_result"
  OnStep :: "real \<Rightarrow> yvec \<Rightarrow> real \<Rightarrow> yvec \<Rightarrow> solid_ptr \<Rightarrow> int \<Rightarrow> 'u \<Rightarrow> 'u step_result"

text \<open>
  The stepper after an accepted step: \<^verbatim>\<open>hdid\<close>, \<^verbatim>\<open>hnext\<close> and the dense output
  \<^verbatim>\<open>dense_out(i, x, hdid)\<close> for \<open>i = 0, ..., 5\<close>.
\<close>

record stepper =
  hdid :: real
  hnext :: real
  dense_out :: "real \<Rightarrow> yvec"

definition ptr_ID :: "'u world \<Rightarrow> solid_ptr \<Rightarrow> nat" where
  "ptr_ID w p = (case p of Geom k \<Rightarrow> ID (geom_solids w k) | Current i \<Rightarrow> i)"

subsubsection \<open>\<^verbatim>\<open>TParticle::CheckHit\<close>\<close>

type_synonym 'u hit_outcome = "error + (bool \<times> real \<times> yvec \<times> 'u TParticle)"

text \<open>
  An outcome \<open>Inr (changed, x2, y2, p)\<close> is the return value, the end point of the
  segment as the call leaves it (\<^verbatim>\<open>x2\<close> and \<^verbatim>\<open>y2\<close> are passed by reference) and the
  particle.
\<close>

text \<open>The four places that stop the particle with a numerical error.\<close>

definition numerical_error :: "real \<Rightarrow> yvec \<Rightarrow> 'u TParticle \<Rightarrow> 'u hit_outcome" where
  "numerical_error x1 y1 p = Inr (True, x1, y1, p\<lparr>pID := ID_NRERROR\<rparr>)"

text \<open>
  \<^verbatim>\<open>OnStep(x1, y1, x2, y2, &*currentsolids.rbegin())\<close>: the value of the call is the
  value that \<^verbatim>\<open>CheckHit\<close> returns.
\<close>

definition call_OnStep ::
  "'u world \<Rightarrow> real \<Rightarrow> yvec \<Rightarrow> real \<Rightarrow> yvec \<Rightarrow> 'u TParticle \<Rightarrow> 'u hit_outcome" where
  "call_OnStep w x1 y1 x2 y2 p =
     (if currentsolids p = [] then Inl InvalidDereference
      else (let r = OnStep w x1 y1 x2 y2 (Current (last (currentsolids p))) (pID p) (user p)
            in Inr (sr_changed r, sr_x2 r, sr_y2 r, p\<lparr>pID := sr_ID r, user := sr_user r\<rparr>)))"

definition after_hit ::
  "'u world \<Rightarrow> bool \<Rightarrow> real \<Rightarrow> yvec \<Rightarrow> real \<Rightarrow> yvec \<Rightarrow> 'u TParticle \<Rightarrow> 'u hit_outcome" where
  "after_hit w resetintegration x1 y1 x2 y2 p =
     (if resetintegration then Inr (True, x2, y2, p) else call_OnStep w x1 y1 x2 y2 p)"

definition distnormal :: "yvec \<Rightarrow> yvec \<Rightarrow> TCollision \<Rightarrow> real" where
  "distnormal y1 y2 coll =
     (case coll_normal coll of (n0, n1, n2) \<Rightarrow>
        (y_0 y2 - y_0 y1) * n0 + (y_1 y2 - y_1 y1) * n1 + (y_2 y2 - y_2 y1) * n2)"

text \<open>The branch \<^verbatim>\<open>distnormal < 0\<close>: the particle is entering the solid.\<close>

definition hit_entering ::
  "'u world \<Rightarrow> real \<Rightarrow> yvec \<Rightarrow> real \<Rightarrow> yvec \<Rightarrow> TCollision \<Rightarrow> 'u TParticle \<Rightarrow> 'u hit_outcome" where
  "hit_entering w x1 y1 x2 y2 coll p =
     (let hitsolid = Geom (coll_ID coll) in
      if ptr_ID w hitsolid \<in> set (currentsolids p) then numerical_error x1 y1 p
      else if currentsolids p = [] then Inl InvalidDereference
      else (let leaving = Current (last (currentsolids p)); entering = hitsolid in
            if ptr_ID w entering > ptr_ID w leaving
            then (let r = OnHit w x1 y1 x2 y2 (coll_normal coll) leaving entering (pID p) (user p);
                      p1 = p\<lparr>pID := hr_ID r, user := hr_user r\<rparr>;
                      p2 = (if hr_entering r \<noteq> leaving
                            then p1\<lparr>currentsolids :=
                                     insort_insert (ptr_ID w (hr_entering r)) (currentsolids p1)\<rparr>
                            else p1)
                  in after_hit w (hr_changed r) x1 y1 (hr_x2 r) (hr_y2 r) p2)
            else after_hit w False x1 y1 x2 y2 p))"

text \<open>The branch \<^verbatim>\<open>distnormal > 0\<close>: the particle is leaving the solid.\<close>

definition hit_leaving ::
  "'u world \<Rightarrow> real \<Rightarrow> yvec \<Rightarrow> real \<Rightarrow> yvec \<Rightarrow> TCollision \<Rightarrow> 'u TParticle \<Rightarrow> 'u hit_outcome" where
  "hit_leaving w x1 y1 x2 y2 coll p =
     (let hitsolid = Geom (coll_ID coll) in
      if ptr_ID w hitsolid \<notin> set (currentsolids p) then numerical_error x1 y1 p
      else (let leaving = hitsolid in
            if ptr_ID w leaving = last (currentsolids p)
            then (if length (currentsolids p) < 2 then Inl InvalidDereference
                  else (let entering = Current (last (butlast (currentsolids p)));
                            r = OnHit w x1 y1 x2 y2 (coll_normal coll) leaving entering (pID p) (user p);
                            p1 = p\<lparr>pID := hr_ID r, user := hr_user r\<rparr>;
                            p2 = (if hr_entering r \<noteq> leaving
                                  then p1\<lparr>currentsolids :=
                                           remove1 (ptr_ID w leaving) (currentsolids p1)\<rparr>
                                  else p1)
                        in after_hit w (hr_changed r) x1 y1 (hr_x2 r) (hr_y2 r) p2))
            else after_hit w False x1 y1 x2 y2 p))"

text \<open>
  The test that sends a segment with the first record \<open>coll\<close> of \<open>colls\<close> to the
  hit handling instead of cutting it.
\<close>

definition is_localised :: "globals \<Rightarrow> yvec \<Rightarrow> yvec \<Rightarrow> TCollision list \<Rightarrow> TCollision \<Rightarrow> int \<Rightarrow> bool" where
  "is_localised gl y1 y2 colls coll iteration \<longleftrightarrow>
     (length colls = 1
      \<and> coll_s coll * \<bar>distnormal y1 y2 coll\<bar> < REFLECT_TOLERANCE gl
      \<and> (1 - coll_s coll) * \<bar>distnormal y1 y2 coll\<bar> < REFLECT_TOLERANCE gl)
     \<or> iteration > 99"

definition localised ::
  "'u world \<Rightarrow> real \<Rightarrow> yvec \<Rightarrow> real \<Rightarrow> yvec \<Rightarrow> TCollision list \<Rightarrow> TCollision \<Rightarrow> 'u TParticle
     \<Rightarrow> 'u hit_outcome" where
  "localised w x1 y1 x2 y2 colls coll p =
     (if length colls > 1 \<and> coll_ID coll \<noteq> coll_ID (colls ! 1) then numerical_error x1 y1 p
      else if distnormal y1 y2 coll < 0 then hit_entering w x1 y1 x2 y2 coll p
      else if distnormal y1 y2 coll > 0 then hit_leaving w x1 y1 x2 y2 coll p
      else numerical_error x1 y1 p)"

text \<open>
  The cutting branch. \<open>rec\<close> stands for the recursive call
  \<^verbatim>\<open>CheckHit(..., iteration+1)\<close>. The three calls are the three pieces of the
  branch; a piece hands on \<^verbatim>\<open>xbisect1, ybisect1, xbisect2, ybisect2\<close> as it leaves
  them.
\<close>

definition cut_before ::
  "(real \<Rightarrow> yvec \<Rightarrow> real \<Rightarrow> yvec \<Rightarrow> 'u TParticle \<Rightarrow> 'u hit_outcome) \<Rightarrow> stepper
     \<Rightarrow> real \<Rightarrow> yvec \<Rightarrow> real \<Rightarrow> real \<Rightarrow> int \<Rightarrow> 'u TParticle
     \<Rightarrow> error + (bool \<times> real \<times> yvec \<times> real \<times> yvec \<times> 'u TParticle)" where
  "cut_before rec stp x1 y1 x2 s iteration p =
     (let xnew = x1 + (x2 - x1) * s * (1 - 0.01 * real_of_int iteration) in
      if xnew > x1 \<and> xnew < x2
      then (case rec x1 y1 xnew (dense_out stp xnew) p of
              Inl e \<Rightarrow> Inl e
            | Inr (changed, xbisect1, ybisect1, p1) \<Rightarrow>
                Inr (changed, xbisect1, ybisect1, xnew, dense_out stp xnew, p1))
      else Inr (False, x1, y1, x1, y1, p))"

definition cut_after ::
  "(real \<Rightarrow> yvec \<Rightarrow> real \<Rightarrow> yvec \<Rightarrow> 'u TParticle \<Rightarrow> 'u hit_outcome) \<Rightarrow> stepper
     \<Rightarrow> real \<Rightarrow> real \<Rightarrow> real \<Rightarrow> int \<Rightarrow> real \<Rightarrow> yvec \<Rightarrow> real \<Rightarrow> yvec \<Rightarrow> 'u TParticle
     \<Rightarrow> 'u hit_outcome" where
  "cut_after rec stp x1 x2 s iteration xbisect1 ybisect1 xbisect2 ybisect2 p =
     (let xnew = x1 + (x2 - x1) * s * (1 + 0.01 * real_of_int iteration) in
      if xnew > xbisect1 \<and> xnew < x2
      then rec xbisect1 ybisect1 xnew (dense_out stp xnew) p
      else Inr (False, xbisect2, ybisect2, p))"

definition bisect ::
  "(real \<Rightarrow> yvec \<Rightarrow> real \<Rightarrow> yvec \<Rightarrow> 'u TParticle \<Rightarrow> 'u hit_outcome) \<Rightarrow> stepper
     \<Rightarrow> real \<Rightarrow> yvec \<Rightarrow> real \<Rightarrow> yvec \<Rightarrow> real \<Rightarrow> int \<Rightarrow> 'u TParticle \<Rightarrow> 'u hit_outcome" where
  "bisect rec stp x1 y1 x2 y2 s iteration p =
     (case cut_before rec stp x1 y1 x2 s iteration p of
        Inl e \<Rightarrow> Inl e
      | Inr (changed1, xbisect1, ybisect1, xbisect2, ybisect2, p1) \<Rightarrow>
          if changed1 then Inr (True, xbisect1, ybisect1, p1)
          else (case cut_after rec stp x1 x2 s iteration xbisect1 ybisect1 xbisect2 ybisect2 p1 of
                  Inl e \<Rightarrow> Inl e
                | Inr (changed2, xbisect2', ybisect2', p2) \<Rightarrow>
                    if changed2 then Inr (True, xbisect2', ybisect2', p2)
                    else rec xbisect2' ybisect2' x2 y2 p2))"

function CheckHit ::
  "globals \<Rightarrow> 'u world \<Rightarrow> stepper \<Rightarrow> real \<Rightarrow> yvec \<Rightarrow> real \<Rightarrow> yvec \<Rightarrow> 'u TParticle \<Rightarrow> int
     \<Rightarrow> 'u hit_outcome" where
  "CheckHit gl w stp x1 y1 x2 y2 p iteration =
     (if \<not> CheckSegment w y1 y2 then Inr (True, x2, y2, p\<lparr>pID := ID_HIT_BOUNDARIES\<rparr>)
      else (case Collisions w x1 y1 (hdid stp) y2 of
              [] \<Rightarrow> call_OnStep w x1 y1 x2 y2 p
            | coll # rest \<Rightarrow>
                if is_localised gl y1 y2 (coll # rest) coll iteration
                then localised w x1 y1 x2 y2 (coll # rest) coll p
                else bisect (\<lambda>xa ya xb yb pa. CheckHit gl w stp xa ya xb yb pa (iteration + 1))
                       stp x1 y1 x2 y2 (coll_s coll) iteration p))"
  by pat_completeness auto
termination
  by (relation "measure (\<lambda>(gl, w, stp, x1, y1, x2, y2, p, iteration). nat (100 - iteration))")
     (auto simp: is_localised_def)

declare CheckHit.simps [simp del]

subsubsection \<open>\<^verbatim>\<open>TParticle::InitV\<close>\<close>

definition Hstart :: "globals \<Rightarrow> species \<Rightarrow> TFieldManager option \<Rightarrow> 'u TParticle \<Rightarrow> real" where
  "Hstart gl sp field p = Ekin gl sp (ystart p) + Epot gl sp (tstart p) (ystart p) (polstart p) field"

definition InitV ::
  "globals \<Rightarrow> species \<Rightarrow> TFieldManager option \<Rightarrow> 'u world \<Rightarrow> real \<Rightarrow> real
     \<Rightarrow> real \<Rightarrow> real \<Rightarrow> real \<Rightarrow> real \<Rightarrow> real \<Rightarrow> real \<Rightarrow> int \<Rightarrow> real \<Rightarrow> 'u TParticle \<Rightarrow> 'u TParticle" where
  "InitV gl sp field w t atau x y z vx vy vz pol trajl p =
     (let y0 = \<lparr> y_0 = x, y_1 = y, y_2 = z, y_3 = vx, y_4 = vy, y_5 = vz \<rparr>;
          p1 = p\<lparr> pID := ID_UNKNOWN, tau := atau, maxtraj := trajl, lend := 0,
                 tend := t, tstart := t, yend := y0, ystart := y0,
                 polend := pol, polstart := pol \<rparr>;
          p2 = p1\<lparr> Hmax := Hstart gl sp field p1 \<rparr>
      in if currentsolids p2 = [] then p2\<lparr> currentsolids := InitialSolids w t y0 \<rparr> else p2)"

subsubsection \<open>\<^verbatim>\<open>TParticle::Integrate\<close>\<close>

text \<open>
  The stepper is an oracle with a state of its own: \<open>stepper_step h x y k\<close> is
  \<^verbatim>\<open>stepper->step(h, *this)\<close> from the time \<open>x\<close> and the state vector \<open>y\<close>,
  which the stepper holds by reference; it is \<open>None\<close> when the call throws.
\<close>

record 'k ode =
  stepper_step :: "real \<Rightarrow> real \<Rightarrow> yvec \<Rightarrow> 'k \<Rightarrow> (real \<times> yvec \<times> 'k) option"
  stepper_view :: "'k \<Rightarrow> stepper"

text \<open>
  The local variables of \<^verbatim>\<open>Integrate\<close> and the particle itself. \<open>pieces\<close> is
  not a variable of the source: it records the segments \<open>(x1, y1, x2, y2)\<close> in the
  order in which the loop hands them to \<^verbatim>\<open>CheckHit\<close>. The local
  \<^verbatim>\<open>polarisation\<close> is a copy of \<^verbatim>\<open>polend\<close> that nothing changes.
\<close>

record ('u, 'k) locals =
  loc_x :: real
  loc_y :: yvec
  loc_x1 :: real
  loc_y1 :: yvec
  loc_h :: real
  loc_k :: 'k
  pieces :: "(real \<times> yvec \<times> real \<times> yvec) list"
  self :: "'u TParticle"

text \<open>
  The end point \<open>(x2, y2)\<close> of the next piece. When \<open>v1\<close> is zero the quotient
  of the source is infinite and the comparison \<^verbatim>\<open>x2 >= x\<close> holds.
\<close>

definition next_piece :: "stepper \<Rightarrow> real \<Rightarrow> yvec \<Rightarrow> real \<Rightarrow> yvec \<Rightarrow> real \<times> yvec" where
  "next_piece stp x y x1 y1 =
     (let v1 = sqrt (y_3 y1 * y_3 y1 + y_4 y1 * y_4 y1 + y_5 y1 * y_5 y1) in
      if v1 = 0 \<or> x1 + MAX_SAMPLE_DIST / v1 \<ge> x then (x, y)
      else (x1 + MAX_SAMPLE_DIST / v1, dense_out stp (x1 + MAX_SAMPLE_DIST / v1)))"

text \<open>One pass through the body of the inner loop.\<close>

definition sample_step ::
  "globals \<Rightarrow> species \<Rightarrow> TFieldManager option \<Rightarrow> 'u world \<Rightarrow> stepper \<Rightarrow> ('u, 'k) locals
     \<Rightarrow> error + ('u, 'k) locals" where
  "sample_step gl sp field w stp s =
     (case next_piece stp (loc_x s) (loc_y s) (loc_x1 s) (loc_y1 s) of (x2, y2) \<Rightarrow>
        (case CheckHit gl w stp (loc_x1 s) (loc_y1 s) x2 y2 (self s) 1 of
           Inl e \<Rightarrow> Inl e
         | Inr (changed, x2', y2', p) \<Rightarrow>
             (let x = (if changed then x2' else loc_x s);
                  y = (if changed then y2' else loc_y s)
              in Inr (s\<lparr> loc_x := x, loc_y := y, loc_x1 := x2', loc_y1 := y2',
                        pieces := pieces s @ [(loc_x1 s, loc_y1 s, x2, y2)],
                        self := p\<lparr> lend := lend p + sqrt ((y_0 y2' - y_0 (loc_y1 s))\<^sup>2
                                                           + (y_1 y2' - y_1 (loc_y1 s))\<^sup>2
                                                           + (y_2 y2' - y_2 (loc_y1 s))\<^sup>2),
                                   Hmax := max (Ekin gl sp y2' + Epot gl sp x y2' (polend p) field)
                                               (Hmax p) \<rparr> \<rparr>))))"

text \<open>
  The inner loop \<^verbatim>\<open>while (x1 < x)\<close>. Nothing bounds the number of its passes, so the
  function takes fuel and is \<open>None\<close> when the fuel does not suffice.
\<close>

fun sample_loop ::
  "nat \<Rightarrow> globals \<Rightarrow> species \<Rightarrow> TFieldManager option \<Rightarrow> 'u world \<Rightarrow> stepper \<Rightarrow> ('u, 'k) locals
     \<Rightarrow> (error + ('u, 'k) locals) option" where
  "sample_loop 0 gl sp field w stp s =
     (if loc_x1 s < loc_x s then None else Some (Inr s))"
| "sample_loop (Suc n) gl sp field w stp s =
     (if loc_x1 s < loc_x s
      then (case sample_step gl sp field w stp s of
              Inl e \<Rightarrow> Some (Inl e)
            | Inr s' \<Rightarrow> sample_loop n gl sp field w stp s')
      else Some (Inr s))"

text \<open>One pass through the body of the outer loop; \<open>n\<close> is the fuel of the inner loop.\<close>

definition integration_step ::
  "nat \<Rightarrow> globals \<Rightarrow> species \<Rightarrow> TFieldManager option \<Rightarrow> 'u world \<Rightarrow> 'k ode \<Rightarrow> real
     \<Rightarrow> ('u, 'k) locals \<Rightarrow> (error + ('u, 'k) locals) option" where
  "integration_step n gl sp field w stepper tmax s =
     (let p = self s;
          h1 = (if loc_x s + loc_h s > tstart p + tau p then tstart p + tau p - loc_x s else loc_h s);
          h2 = (if loc_x s + h1 > tmax then tmax - loc_x s else h1);
          s1 = (case stepper_step stepper h2 (loc_x s) (loc_y s) (loc_k s) of
                  None \<Rightarrow> s\<lparr> loc_x1 := loc_x s, loc_y1 := loc_y s, loc_h := h2,
                             self := p\<lparr> pID := ID_NRERROR \<rparr> \<rparr>
                | Some (x', y', k') \<Rightarrow>
                    s\<lparr> loc_x := x', loc_y := y', loc_x1 := loc_x s, loc_y1 := loc_y s,
                       loc_h := h2, loc_k := k', self := p\<lparr> Nstep := Nstep p + 1 \<rparr> \<rparr>)
      in (case sample_loop n gl sp field w (stepper_view stepper (loc_k s1)) s1 of
            None \<Rightarrow> None
          | Some (Inl e) \<Rightarrow> Some (Inl e)
          | Some (Inr s2) \<Rightarrow>
              (let p2 = self s2;
                   p3 = (if pID p2 = ID_UNKNOWN \<and> loc_x s2 \<ge> tstart p2 + tau p2
                         then p2\<lparr> pID := ID_DECAYED \<rparr>
                         else if pID p2 = ID_UNKNOWN \<and> (loc_x s2 \<ge> tmax \<or> lend p2 \<ge> maxtraj p2)
                         then p2\<lparr> pID := ID_NOT_FINISH \<rparr>
                         else p2)
               in Some (Inr (s2\<lparr> loc_h := hnext (stepper_view stepper (loc_k s2)),
                                 self := p3 \<rparr>)))))"

text \<open>
  The outer loop \<^verbatim>\<open>while (ID == ID_UNKNOWN)\<close>, with fuel \<open>m\<close> for itself and
  \<open>n\<close> for every run of the inner loop.
\<close>

fun Integrate_loop ::
  "nat \<Rightarrow> nat \<Rightarrow> globals \<Rightarrow> species \<Rightarrow> TFieldManager option \<Rightarrow> 'u world \<Rightarrow> 'k ode \<Rightarrow> real
     \<Rightarrow> ('u, 'k) locals \<Rightarrow> (error + ('u, 'k) locals) option" where
  "Integrate_loop 0 n gl sp field w stepper tmax s =
     (if pID (self s) = ID_UNKNOWN then None else Some (Inr s))"
| "Integrate_loop (Suc m) n gl sp field w stepper tmax s =
     (if pID (self s) = ID_UNKNOWN
      then (case integration_step n gl sp field w stepper tmax s of
              None \<Rightarrow> None
            | Some (Inl e) \<Rightarrow> Some (Inl e)
            | Some (Inr s') \<Rightarrow> Integrate_loop m n gl sp field w stepper tmax s')
      else Some (Inr s))"


subsection \<open>Vocabulary of the properties\<close>

text \<open>
  The total energy that \<^verbatim>\<open>PrintTrack\<close> writes for a track point \<open>(x, y)\<close>:
  \<^verbatim>\<open>H = Ek + Epot(x, y, polarisation, field)\<close>.
\<close>

definition track_H :: "globals \<Rightarrow> species \<Rightarrow> TFieldManager option \<Rightarrow> real \<Rightarrow> yvec \<Rightarrow> int \<Rightarrow> real" where
  "track_H gl sp field x y polarisation = Ekin gl sp y + Epot gl sp x y polarisation field"

text \<open>
  The speed \<^verbatim>\<open>v1\<close> at the start of a piece and the length that the loop adds to
  \<^verbatim>\<open>lend\<close> for it.
\<close>

definition speed :: "yvec \<Rightarrow> real" where
  "speed y = sqrt (y_3 y * y_3 y + y_4 y * y_4 y + y_5 y * y_5 y)"

definition distance :: "yvec \<Rightarrow> yvec \<Rightarrow> real" where
  "distance y1 y2 = sqrt ((y_0 y2 - y_0 y1)\<^sup>2 + (y_1 y2 - y_1 y1)\<^sup>2 + (y_2 y2 - y_2 y1)\<^sup>2)"

text \<open>
  A piece \<open>(x1, y1, x2, y2)\<close> that is not empty and that a particle with the speed
  at \<open>y1\<close> covers within \<^verbatim>\<open>MAX_SAMPLE_DIST\<close>.
\<close>

definition piece_in_time :: "(real \<times> yvec \<times> real \<times> yvec) \<Rightarrow> bool" where
  "piece_in_time pc = (case pc of (x1, y1, x2, y2) \<Rightarrow>
      x1 < x2 \<and> (x2 - x1) * sqrt (y_3 y1 * y_3 y1 + y_4 y1 * y_4 y1 + y_5 y1 * y_5 y1) \<le> MAX_SAMPLE_DIST)"

text \<open>
  \<open>p'\<close> differs from \<open>p\<close> at most in the fate, the current-solid set and the
  data of the derived class.
\<close>

definition same_but_fate :: "'u TParticle \<Rightarrow> 'u TParticle \<Rightarrow> bool" where
  "same_but_fate p p' \<longleftrightarrow>
     p'\<lparr>pID := pID p, user := user p, currentsolids := currentsolids p\<rparr> = p"

subsection \<open>Concrete inputs\<close>

definition shutter :: solid where
  "shutter = \<lparr> ID = 2, name = ''shutter'', filename = ''shutter.stl'',
      mat = \<lparr> mat_name = ''Cu'', FermiReal = 1, FermiImag = 0, DiffProb = 0, SpinflipProb = 0,
              RMSRoughness = 0, CorrelLength = 0, LossPerBounce = 0, MFPElastic = 0 \<rparr>,
      ignoretimes = [(1, 2)] \<rparr>"

definition shutter_coll :: TCollision where
  "shutter_coll = \<lparr> coll_s = 1/2, coll_normal = (0, 0, 1), coll_ID = 2 \<rparr>"

definition shutter_geometry :: TGeometry where
  "shutter_geometry = \<lparr> solids = [shutter], defaultsolid = shutter\<lparr> ID := 1, name := ''default solid'' \<rparr>,
      Collision = (\<lambda>p1 p2. [shutter_coll]), bbox_min = (0, 0, 0) \<rparr>"


text \<open>
  A geometry with two solids: the shutter (ID 2), transparent for \<open>1 \<le> t < 2\<close>, and a
  window (ID 3) that is never transparent. The mesh reports that a segment meets the
  shutter at \<open>s = 1/2\<close> and the window at \<open>s = 3/4\<close>.
\<close>

definition window :: solid where
  "window = \<lparr> ID = 3, name = ''window'', filename = ''window.stl'',
      mat = mat shutter, ignoretimes = [] \<rparr>"

definition window_coll :: TCollision where
  "window_coll = \<lparr> coll_s = 3/4, coll_normal = (0, 0, 1), coll_ID = 3 \<rparr>"

definition gate_geometry :: TGeometry where
  "gate_geometry = \<lparr> solids = [shutter, window],
      defaultsolid = shutter\<lparr> ID := 1, name := ''default solid'' \<rparr>,
      Collision = (\<lambda>p1 p2. [shutter_coll, window_coll]), bbox_min = (0, 0, 0) \<rparr>"

text \<open>
  Constants as PENTrack's \<^verbatim>\<open>globals.h\<close> is known to set them (tolerance \<open>1e-8\<close>,
  threshold \<open>0.01\<close>, SI values of the speed of light, the elementary charge and the
  standard acceleration of gravity).
\<close>

definition G0 :: globals where
  "G0 = \<lparr> REFLECT_TOLERANCE = 1 / 100000000, RELATIVISTIC_THRESHOLD = 1 / 100, c_0 = 299792458,
          ele_e = 1602176487 / 10 ^ 28, gravconst = 980665 / 100000 \<rparr>"

definition copper :: material where
  "copper = \<lparr> mat_name = ''Cu'', FermiReal = 171, FermiImag = 0, DiffProb = 0, SpinflipProb = 0,
              RMSRoughness = 0, CorrelLength = 0, LossPerBounce = 0, MFPElastic = 0 \<rparr>"

definition solid_of :: "nat \<Rightarrow> solid" where
  "solid_of k = \<lparr> ID = k, name = ''solid'', filename = ''solid.stl'', mat = copper, ignoretimes = [] \<rparr>"

text \<open>Hooks of a particle that passes every boundary and is never absorbed.\<close>

definition pass_OnHit ::
  "real \<Rightarrow> yvec \<Rightarrow> real \<Rightarrow> yvec \<Rightarrow> vec3 \<Rightarrow> solid_ptr \<Rightarrow> solid_ptr \<Rightarrow> int \<Rightarrow> unit \<Rightarrow> unit hit_result" where
  "pass_OnHit x1 y1 x2 y2 normal leaving entering i u =
     \<lparr> hr_changed = False, hr_x2 = x2, hr_y2 = y2, hr_entering = entering, hr_ID = i, hr_user = u \<rparr>"

definition pass_OnStep ::
  "real \<Rightarrow> yvec \<Rightarrow> real \<Rightarrow> yvec \<Rightarrow> solid_ptr \<Rightarrow> int \<Rightarrow> unit \<Rightarrow> unit step_result" where
  "pass_OnStep x1 y1 x2 y2 currentsolid i u =
     \<lparr> sr_changed = False, sr_x2 = x2, sr_y2 = y2, sr_ID = i, sr_user = u \<rparr>"

text \<open>A point on the x axis with the velocity \<open>(1, 0, 0)\<close>.\<close>

definition on_axis :: "real \<Rightarrow> yvec" where
  "on_axis x = \<lparr> y_0 = x, y_1 = 0, y_2 = 0, y_3 = 1, y_4 = 0, y_5 = 0 \<rparr>"

definition uniform_motion :: stepper where
  "uniform_motion = \<lparr> hdid = 1, hnext = 1, dense_out = on_axis \<rparr>"

definition particle_in :: "nat list \<Rightarrow> unit TParticle" where
  "particle_in cs = \<lparr> pID = ID_UNKNOWN, tau = 1000, maxtraj = 1000, tstart = 0, tend = 0,
      ystart = on_axis 0, yend = on_axis 0, polstart = 0, polend = 0, Hmax = 0, lend = 0,
      Nstep = 0, currentsolids = cs, user = () \<rparr>"

text \<open>
  A foil of solid 2 so thin that a segment of length \<open>1e-9\<close> meets both of its faces:
  the records are the entry at \<open>s = 0.4\<close> and the exit at \<open>s = 0.6\<close>.
\<close>

definition foil_entry :: TCollision where
  "foil_entry = \<lparr> coll_s = 2 / 5, coll_normal = (- 1, 0, 0), coll_ID = 2 \<rparr>"

definition foil_exit :: TCollision where
  "foil_exit = \<lparr> coll_s = 3 / 5, coll_normal = (1, 0, 0), coll_ID = 2 \<rparr>"

definition foil_world :: "unit world" where
  "foil_world = \<lparr> CheckSegment = (\<lambda>y1 y2. True),
      Collisions = (\<lambda>x1 y1 h y2. [foil_entry, foil_exit]),
      geom_solids = solid_of, InitialSolids = (\<lambda>t y. [1]),
      OnHit = pass_OnHit, OnStep = pass_OnStep \<rparr>"

text \<open>
  A plane face of solid \<open>k\<close> at \<open>x = a\<close>: a segment along the x axis that
  crosses the plane has one record, with the normal \<open>n\<close> that the mesh reports for
  the face (\<open>(-1, 0, 0)\<close> when the solid lies behind the plane, \<open>(1, 0, 0)\<close> when
  it lies in front of it).
\<close>

definition wall_world :: "nat \<Rightarrow> real \<Rightarrow> vec3 \<Rightarrow> unit world" where
  "wall_world k a n = \<lparr> CheckSegment = (\<lambda>y1 y2. True),
      Collisions = (\<lambda>x1 y1 h y2.
         if y_0 y1 < a \<and> a < y_0 y2
         then [\<lparr> coll_s = (a - y_0 y1) / (y_0 y2 - y_0 y1), coll_normal = n, coll_ID = k \<rparr>]
         else []),
      geom_solids = solid_of, InitialSolids = (\<lambda>t y. [1]),
      OnHit = pass_OnHit, OnStep = pass_OnStep \<rparr>"

text \<open>
  A slab of solid \<open>k\<close> between the planes \<open>x = a\<close> and \<open>x = b\<close>: a segment
  along the x axis has a record with the normal \<open>(-1, 0, 0)\<close> where it crosses the
  first plane and a record with the normal \<open>(1, 0, 0)\<close> where it crosses the second.
\<close>

definition slab_world :: "nat \<Rightarrow> real \<Rightarrow> real \<Rightarrow> unit world" where
  "slab_world k a b = \<lparr> CheckSegment = (\<lambda>y1 y2. True),
      Collisions = (\<lambda>x1 y1 h y2.
         (if y_0 y1 < a \<and> a < y_0 y2
          then [\<lparr> coll_s = (a - y_0 y1) / (y_0 y2 - y_0 y1), coll_normal = (- 1, 0, 0), coll_ID = k \<rparr>]
          else [])
         @ (if y_0 y1 < b \<and> b < y_0 y2
            then [\<lparr> coll_s = (b - y_0 y1) / (y_0 y2 - y_0 y1), coll_normal = (1, 0, 0), coll_ID = k \<rparr>]
            else [])),
      geom_solids = solid_of, InitialSolids = (\<lambda>t y. [1]),
      OnHit = pass_OnHit, OnStep = pass_OnStep \<rparr>"

text \<open>
  A neutron-like species (no charge; mass in \<open>eV s\<^sup>2/m\<^sup>2\<close>, magnetic moment in
  \<open>J/T\<close>, rounded).
\<close>

definition neutron :: species where
  "neutron = \<lparr> sp_q = 0, sp_m = 1 / 100000000, sp_mu = - (1 / 100000000000000000000000000) \<rparr>"

text \<open>
  Free fall along the z axis from the origin with the velocity \<open>(0, 0, -1)\<close> at
  \<open>t = 0\<close>: the exact solution of the equation of motion without fields, which is
  what the dense output of the stepper interpolates.
\<close>

definition fall :: "real \<Rightarrow> yvec" where
  "fall t = \<lparr> y_0 = 0, y_1 = 0, y_2 = - t - gravconst G0 / 2 * t * t,
              y_3 = 0, y_4 = 0, y_5 = - 1 - gravconst G0 * t \<rparr>"

definition falling :: stepper where
  "falling = \<lparr> hdid = 1 / 50, hnext = 1 / 50, dense_out = fall \<rparr>"

text \<open>
  A homogeneous magnetic field of 1 T that is switched on from \<open>t = 0.005\<close> to
  \<open>t = 0.015\<close>; it exerts no force on a magnetic moment.
\<close>

definition pulse :: TFieldManager where
  "pulse = \<lparr> BField_abs = (\<lambda>x y z t. if 1 / 200 \<le> t \<and> t < 3 / 200 then 1 else 0),
              EField_V = (\<lambda>x y z t. 0) \<rparr>"

text \<open>
  The local variables of \<^verbatim>\<open>Integrate\<close> after the stepper has accepted a step from
  \<open>t = 0\<close> to \<open>t = x\<close> along a trajectory \<open>traj\<close> and before the inner loop
  runs, for a particle \<open>p\<close>.
\<close>

definition after_step :: "(real \<Rightarrow> yvec) \<Rightarrow> real \<Rightarrow> unit TParticle \<Rightarrow> (unit, unit) locals" where
  "after_step traj x p = \<lparr> loc_x = x, loc_y = traj x, loc_x1 = 0, loc_y1 = traj 0, loc_h = x,
      loc_k = (), pieces = [], self = p \<rparr>"

text \<open>
  The particle that \<^verbatim>\<open>InitV\<close> makes at the origin at \<open>t = 0\<close> with the velocity
  \<open>(0, 0, -1)\<close> and the polarisation 1 in the field \<open>pulse\<close>, in a world without a
  surface near the z axis.
\<close>

definition dropped :: "unit TParticle" where
  "dropped = InitV G0 neutron (Some pulse) (wall_world 2 1000 (- 1, 0, 0))
               0 1000 0 0 0 0 0 (- 1) 1 1000 (particle_in [])"

text \<open>
  A stepper for a particle that nothing accelerates: every step is accepted as
  proposed and ends on the x axis.
\<close>

definition free_flight :: "unit ode" where
  "free_flight = \<lparr> stepper_step = (\<lambda>h x y k. Some (x + h, on_axis (x + h), ())),
                    stepper_view = (\<lambda>k. uniform_motion) \<rparr>"

text \<open>The local variables at the first pass of the outer loop, with the step \<open>h\<close>.\<close>

definition at_start :: "real \<Rightarrow> unit TParticle \<Rightarrow> (unit, unit) locals" where
  "at_start h p = \<lparr> loc_x = tend p, loc_y = yend p, loc_x1 = tend p, loc_y1 = yend p, loc_h = h,
      loc_k = (), pieces = [], self = p \<rparr>"
section \<open>Properties\<close>

subsection \<open>Facts about the concrete inputs\<close>

lemma wall_coll:
  "y_0 y1 < a \<Longrightarrow> a < y_0 y2 \<Longrightarrow>
   Collisions (wall_world k a n) x1 y1 h y2
     = [\<lparr> coll_s = (a - y_0 y1) / (y_0 y2 - y_0 y1), coll_normal = n, coll_ID = k \<rparr>]"
  by (simp add: wall_world_def)

lemma wall_no_coll:
  "\<not> (y_0 y1 < a \<and> a < y_0 y2) \<Longrightarrow> Collisions (wall_world k a n) x1 y1 h y2 = []"
  by (simp add: wall_world_def)

lemma wall_fields [simp]:
  "CheckSegment (wall_world k a n) y1 y2"
  "geom_solids (wall_world k a n) = solid_of"
  "OnHit (wall_world k a n) = pass_OnHit"
  "OnStep (wall_world k a n) = pass_OnStep"
  by (simp_all add: wall_world_def)

lemma solid_of_ID [simp]: "ID (solid_of k) = k"
  by (simp add: solid_of_def)

lemma on_axis_sel [simp]:
  "y_0 (on_axis x) = x" "y_1 (on_axis x) = 0" "y_2 (on_axis x) = 0"
  "y_3 (on_axis x) = 1" "y_4 (on_axis x) = 0" "y_5 (on_axis x) = 0"
  by (simp_all add: on_axis_def)

lemma particle_in_sel [simp]:
  "currentsolids (particle_in cs) = cs" "pID (particle_in cs) = ID_UNKNOWN" "user (particle_in cs) = ()"
  by (simp_all add: particle_in_def)


lemma slab_fields [simp]:
  "CheckSegment (slab_world k a b) y1 y2"
  "geom_solids (slab_world k a b) = solid_of"
  "OnHit (slab_world k a b) = pass_OnHit"
  "OnStep (slab_world k a b) = pass_OnStep"
  by (simp_all add: slab_world_def)

lemma slab_entry:
  "y_0 y1 < a \<Longrightarrow> a < y_0 y2 \<Longrightarrow> \<not> (y_0 y1 < b \<and> b < y_0 y2) \<Longrightarrow>
   Collisions (slab_world k a b) x1 y1 h y2
     = [\<lparr> coll_s = (a - y_0 y1) / (y_0 y2 - y_0 y1), coll_normal = (- 1, 0, 0), coll_ID = k \<rparr>]"
  by (simp add: slab_world_def)

lemma slab_exit:
  "\<not> (y_0 y1 < a \<and> a < y_0 y2) \<Longrightarrow> y_0 y1 < b \<Longrightarrow> b < y_0 y2 \<Longrightarrow>
   Collisions (slab_world k a b) x1 y1 h y2
     = [\<lparr> coll_s = (b - y_0 y1) / (y_0 y2 - y_0 y1), coll_normal = (1, 0, 0), coll_ID = k \<rparr>]"
  by (simp add: slab_world_def)

lemma pass_OnStep_call:
  "OnStep w = pass_OnStep \<Longrightarrow> currentsolids p \<noteq> [] \<Longrightarrow>
   call_OnStep w x1 y1 x2 y2 p = Inr (False, x2, y2, p)"
  by (simp add: call_OnStep_def pass_OnStep_def)


lemma uniform_motion_sel [simp]: "dense_out uniform_motion = on_axis" "hdid uniform_motion = 1"
  by (simp_all add: uniform_motion_def)

lemma insort_insert_not_Nil [simp]: "insort_insert x xs \<noteq> []"
proof
  assume "insort_insert x xs = []"
  then have "set (insort_insert x xs) = {}" by simp
  then show False by (simp add: set_insort_insert)
qed

lemma pass_OnHit_entering:
  "OnHit w = pass_OnHit \<Longrightarrow> OnStep w = pass_OnStep \<Longrightarrow>
   ID (geom_solids w (coll_ID coll)) \<notin> set (currentsolids p) \<Longrightarrow> currentsolids p \<noteq> [] \<Longrightarrow>
   last (currentsolids p) < ID (geom_solids w (coll_ID coll)) \<Longrightarrow>
   hit_entering w x1 y1 x2 y2 coll p
     = Inr (False, x2, y2,
            p\<lparr>currentsolids := insort_insert (ID (geom_solids w (coll_ID coll))) (currentsolids p)\<rparr>)"
  by (cases p) (simp add: hit_entering_def ptr_ID_def pass_OnHit_def after_hit_def call_OnStep_def
      pass_OnStep_def Let_def)

subsection \<open>Reading a material\<close>

lemma extract_length: "extract_doubles n str = Some vs \<Longrightarrow> length vs = n"
  by (induction n str arbitrary: vs rule: extract_doubles.induct) (auto split: option.splits)


lemma extract_None_iff:
  "extract_doubles n str = None \<longleftrightarrow> length str < n \<or> (\<exists>k<n. str ! k = None)"
proof (induction n str rule: extract_doubles.induct)
  case (1 str)
  then show ?case by simp
next
  case (2 n)
  then show ?case by simp
next
  case (3 n str)
  then show ?case by auto
next
  case (4 n v str)
  show ?case
  proof
    assume "extract_doubles (Suc n) (Some v # str) = None"
    then have "extract_doubles n str = None" by (simp split: option.splits)
    with 4 have "length str < n \<or> (\<exists>k<n. str ! k = None)" by simp
    then show "length (Some v # str) < Suc n \<or> (\<exists>k<Suc n. (Some v # str) ! k = None)"
    proof
      assume "length str < n" then show ?thesis by simp
    next
      assume "\<exists>k<n. str ! k = None"
      then obtain k where "k < n" "str ! k = None" by blast
      then have "Suc k < Suc n \<and> (Some v # str) ! Suc k = None" by simp
      then show ?thesis by blast
    qed
  next
    assume a: "length (Some v # str) < Suc n \<or> (\<exists>k<Suc n. (Some v # str) ! k = None)"
    have "length str < n \<or> (\<exists>k<n. str ! k = None)"
    proof (cases "length str < n")
      case True then show ?thesis by simp
    next
      case False
      with a obtain k where k: "k < Suc n" "(Some v # str) ! k = None" by auto
      then obtain j where "k = Suc j" by (cases k) auto
      with k show ?thesis by auto
    qed
    with 4 have "extract_doubles n str = None" by simp
    then show "extract_doubles (Suc n) (Some v # str) = None" by simp
  qed
qed

lemma extract_Some_take:
  "extract_doubles n str = Some vs \<Longrightarrow> take n str = map Some vs"
  by (induction n str arbitrary: vs rule: extract_doubles.induct) (auto split: option.splits)

lemma extract_map_Some:
  "extract_doubles (length vs) (map Some vs @ rest) = Some vs"
  by (induction vs) auto



lemma extract_take:
  assumes "take n str = map Some vs" "length vs = n"
  shows "extract_doubles n str = Some vs"
proof -
  have "str = map Some vs @ drop n str"
    using assms(1) append_take_drop_id[of n str] by simp
  then show ?thesis
    using extract_map_Some[of vs "drop n str"] assms(2) by simp
qed

text \<open>
  Claim C10. Reading a material fails with the error "could not read" when one of the
  eight numbers is missing or is not a number, and with the error "both reflection models"
  when the eight numbers are read, the diffuse-reflection probability is not zero and the
  RMS roughness or the correlation length is not zero. A material that is accepted has
  a zero diffuse-reflection probability or has both roughness parameters zero, and its
  fields are the eight numbers in the order of the stream.
\<close>

theorem read_material_one_reflection_model:
  "((length str < 8 \<or> (\<exists>k<8. str ! k = None)) \<longrightarrow>
      read_material nm str = Inl (CouldNotReadMaterial nm))
   \<and> (take 8 str = map Some [fr, fi, dp, sp, rms, cl, lpb, mfp] \<and> dp \<noteq> 0 \<and> (rms \<noteq> 0 \<or> cl \<noteq> 0) \<longrightarrow>
      read_material nm str = Inl (BothReflectionModels nm))
   \<and> (read_material nm str = Inr m \<longrightarrow>
        (DiffProb m = 0 \<or> (RMSRoughness m = 0 \<and> CorrelLength m = 0))
        \<and> take 8 str = map Some [FermiReal m, FermiImag m, DiffProb m, SpinflipProb m,
                                   RMSRoughness m, CorrelLength m, LossPerBounce m, MFPElastic m])"
proof (intro conjI impI)
  assume "length str < 8 \<or> (\<exists>k<8. str ! k = None)"
  then have "extract_doubles 8 str = None"
    by (simp only: extract_None_iff)
  then show "read_material nm str = Inl (CouldNotReadMaterial nm)"
    by (simp add: read_material_def)
next
  assume a: "take 8 str = map Some [fr, fi, dp, sp, rms, cl, lpb, mfp] \<and> dp \<noteq> 0 \<and> (rms \<noteq> 0 \<or> cl \<noteq> 0)"
  then have "extract_doubles 8 str = Some [fr, fi, dp, sp, rms, cl, lpb, mfp]"
    by (intro extract_take) simp_all
  with a show "read_material nm str = Inl (BothReflectionModels nm)"
    by (auto simp add: read_material_def)
next
  assume r: "read_material nm str = Inr m"
  then obtain vs where vs: "extract_doubles 8 str = Some vs"
    by (auto simp: read_material_def split: option.splits)
  from vs have len: "length vs = 8" by (rule extract_length)
  from r vs have ok: "\<not> (vs ! 2 \<noteq> 0 \<and> (vs ! 4 \<noteq> 0 \<or> vs ! 5 \<noteq> 0))"
    and m: "m = \<lparr> mat_name = nm, FermiReal = vs ! 0, FermiImag = vs ! 1,
                     DiffProb = vs ! 2, SpinflipProb = vs ! 3, RMSRoughness = vs ! 4,
                     CorrelLength = vs ! 5, LossPerBounce = vs ! 6, MFPElastic = vs ! 7 \<rparr>"
    by (auto simp: read_material_def split: if_splits)
  from ok m show "DiffProb m = 0 \<or> (RMSRoughness m = 0 \<and> CorrelLength m = 0)"
    by auto
  from len obtain a b c d e f g h where "vs = [a, b, c, d, e, f, g, h]"
    by (auto simp: length_Suc_conv eval_nat_numeral)
  with m extract_Some_take[OF vs]
  show "take 8 str = map Some [FermiReal m, FermiImag m, DiffProb m, SpinflipProb m,
                                   RMSRoughness m, CorrelLength m, LossPerBounce m, MFPElastic m]"
    by simp
qed

theorem read_material_one_reflection_model_witness:
  "length [Some 1, None :: real option] < 8
   \<and> read_material ''Cu'' [Some 1, None] = Inl (CouldNotReadMaterial ''Cu'')
   \<and> read_material ''Cu'' (map Some [1, 2, 1/2, 0, 3, 0, 0, 0]) = Inl (BothReflectionModels ''Cu'')
   \<and> read_material ''Cu'' (map Some [1, 2, 1/2, 0, 0, 0, 0, 0])
       = Inr \<lparr> mat_name = ''Cu'', FermiReal = 1, FermiImag = 2,
                     DiffProb = 1/2, SpinflipProb = 0, RMSRoughness = 0,
                     CorrelLength = 0, LossPerBounce = 0, MFPElastic = 0 \<rparr>
   \<and> (RMSRoughness \<lparr> mat_name = ''Cu'', FermiReal = 1, FermiImag = 2,
                     DiffProb = 1/2, SpinflipProb = 0, RMSRoughness = 0,
                     CorrelLength = 0, LossPerBounce = 0, MFPElastic = 0 \<rparr> = 0)"
  using read_material_one_reflection_model[where str="[Some 1, None]" and nm="''Cu''"]
    read_material_one_reflection_model[where str="map Some [1, 2, 1/2, 0, 3, 0, 0, 0]"
       and fr=1 and fi=2 and dp="1/2" and sp=0 and rms=3 and cl=0 and lpb=0 and mfp=0 and nm="''Cu''"]
    read_material_one_reflection_model[where str="map Some [1, 2, 1/2, 0, 0, 0, 0, 0]" and nm="''Cu''"
       and m="\<lparr> mat_name = ''Cu'', FermiReal = 1, FermiImag = 2,
                     DiffProb = 1/2, SpinflipProb = 0, RMSRoughness = 0,
                     CorrelLength = 0, LossPerBounce = 0, MFPElastic = 0 \<rparr>"]
  by (simp add: read_material_def eval_nat_numeral)


subsection \<open>The constructor of the geometry\<close>

lemma load_solids_undefined_material:
  "load_solids materials ReadFile es d acc = Inr r \<Longrightarrow> e \<in> set es \<Longrightarrow>
     find (\<lambda>m. entry_matname e = mat_name m) materials \<noteq> None"
  by (induction es arbitrary: d acc) (auto split: option.splits if_splits)

lemma std_unique_length: "length (std_unique p zs) \<le> length zs"
  by (induction p zs rule: std_unique.induct) auto

lemma std_unique_adjacent:
  assumes "p x y"
  shows "length (std_unique p (xs @ x # y # ys)) < length (xs @ x # y # ys)"
proof (induction xs)
  case Nil
  show ?case using assms std_unique_length[of p "x # ys"] by simp
next
  case (Cons a xs)
  obtain b zs where bz: "xs @ x # y # ys = b # zs"
    by (cases "xs @ x # y # ys") auto
  show ?case
  proof (cases "p a b")
    case True
    then show ?thesis
      using bz std_unique_length[of p "a # zs"] by simp
  next
    case False
    then show ?thesis using bz Cons.IH by simp
  qed
qed

text \<open>
  Claim C9, at the failing input. The section \<^verbatim>\<open>GEOMETRY\<close> has the keys
  \<^verbatim>\<open>02\<close>, \<^verbatim>\<open>10\<close> and \<^verbatim>\<open>2\<close> (their order as strings), which are read as
  the IDs 2, 10 and 2, and every entry names the material \<^verbatim>\<open>Cu\<close>, which is
  defined. The two solids with the ID 2 are not neighbours in the vector, so
  \<^verbatim>\<open>std::unique\<close> drops nothing and the constructor returns a geometry in which two
  solids share the ID 2.
\<close>

theorem TGeometry_ctor_accepts_separated_duplicate:
  "\<exists>g. TGeometry_ctor [(''Cu'', map Some [1, 0, 0, 0, 0, 0, 0, 0])]
          [\<lparr> entry_ID = 2, entry_filename = ''a.stl'', entry_matname = ''Cu'', entry_ignoretimes = [] \<rparr>,
           \<lparr> entry_ID = 10, entry_filename = ''b.stl'', entry_matname = ''Cu'', entry_ignoretimes = [] \<rparr>,
           \<lparr> entry_ID = 2, entry_filename = ''c.stl'', entry_matname = ''Cu'', entry_ignoretimes = [] \<rparr>]
          ReadFile d0 coll bb = Inr g \<and> map ID (solids g) = [2, 10, 2]"
  by (simp add: TGeometry_ctor_def read_material_def eval_nat_numeral)


subsection \<open>The segment test\<close>

lemma set_emplace: "set (emplace kv colls) = insert kv (set colls)"
  by (induction colls) auto

lemma mset_emplace: "mset (emplace kv colls) = add_mset kv (mset colls)"
  by (induction colls) auto

lemma emplace_not_Nil: "emplace kv colls \<noteq> []"
  by (cases colls) auto

lemma is_ignored_iff:
  "is_ignored sld t \<longleftrightarrow> (\<exists>(a, b) \<in> set (ignoretimes sld). t \<ge> a \<and> t < b)"
  by (force simp: is_ignored_def list_ex_iff)

lemma tag_collisions_tags:
  "tag_collisions g x1 x2 c acc = Inr colls \<Longrightarrow> (it, ign) \<in> set colls \<Longrightarrow>
     (it, ign) \<in> set acc \<or>
     (\<exists>sld. GetSolid g (coll_ID it) = Inr sld \<and> ign = is_ignored sld (x1 + (x2 - x1) * coll_s it))"
proof (induction c arbitrary: acc)
  case Nil
  then show ?case by simp
next
  case (Cons a c)
  from Cons.prems(1) obtain sld where sld: "GetSolid g (coll_ID a) = Inr sld"
    and rest: "tag_collisions g x1 x2 c
            (emplace (a, is_ignored sld (x1 + (x2 - x1) * coll_s a)) acc) = Inr colls"
    by (auto split: sum.splits)
  from Cons.IH[OF rest Cons.prems(2)] sld show ?case
    by (auto simp: set_emplace)
qed

lemma tag_collisions_mset:
  "tag_collisions g x1 x2 c acc = Inr colls \<Longrightarrow>
     mset (map fst colls) = mset (map fst acc) + mset c"
proof (induction c arbitrary: acc)
  case Nil
  then show ?case by simp
next
  case (Cons a c)
  from Cons.prems(1) obtain sld where
    rest: "tag_collisions g x1 x2 c
            (emplace (a, is_ignored sld (x1 + (x2 - x1) * coll_s a)) acc) = Inr colls"
    by (auto split: sum.splits)
  from Cons.IH[OF rest] show ?case
    by (simp add: mset_emplace)
qed

lemma GetSolid_found:
  "i \<in> ID ` set (solids g) \<Longrightarrow> \<exists>sld. GetSolid g i = Inr sld"
proof -
  assume "i \<in> ID ` set (solids g)"
  then have "find (\<lambda>s. ID s = i) (solids g) \<noteq> None"
    by (auto simp: find_None_iff)
  then show ?thesis by (auto simp: GetSolid_def)
qed

lemma tag_collisions_total:
  "list_all (\<lambda>it. coll_ID it \<in> ID ` set (solids g)) c \<Longrightarrow>
     \<exists>colls. tag_collisions g x1 x2 c acc = Inr colls"
proof (induction c arbitrary: acc)
  case Nil
  then show ?case by simp
next
  case (Cons a c)
  then obtain sld where "GetSolid g (coll_ID a) = Inr sld"
    using GetSolid_found[of "coll_ID a" g] by auto
  with Cons show ?case by simp
qed

lemma GetSolid_Inr:
  assumes "GetSolid g i = Inr sld"
  shows "find (\<lambda>s. ID s = i) (solids g) = Some sld" and "sld \<in> set (solids g)" and "ID sld = i"
proof -
  from assms show f: "find (\<lambda>s. ID s = i) (solids g) = Some sld"
    by (auto simp: GetSolid_def split: option.splits)
  from f show "sld \<in> set (solids g)" and "ID sld = i"
    by (auto simp: find_Some_iff)
qed

lemma unique_ID:
  "distinct (map ID (solids g)) \<Longrightarrow> sld \<in> set (solids g) \<Longrightarrow> s' \<in> set (solids g) \<Longrightarrow>
     ID s' = ID sld \<Longrightarrow> s' = sld"
  by (auto simp: distinct_map dest: inj_onD)

text \<open>
  Claim C8. When the segment test returns, every record \<open>it\<close> of its result belongs
  to a solid of the geometry that has the ID of the record: the first solid of
  \<^verbatim>\<open>solids\<close> with that ID, which is the only one when the IDs are unique. The record
  carries the tag "ignored" exactly when the hit time \<open>x1 + (x2 - x1) * s\<close> lies in one
  of the intervals \<open>[a, b)\<close> of that solid (\<open>a \<le> t\<close> and \<open>t < b\<close>). The records are
  those of the mesh, each once, and the value returned is true exactly when there is a
  record. The test returns whenever every record of the mesh carries the ID of a solid
  of the geometry.
\<close>

theorem GetCollisions_ignore_tag:
  "(GetCollisions g x1 p1 x2 p2 = Inr (hit, colls) \<longrightarrow>
      (\<forall>(it, ign) \<in> set colls. \<exists>sld.
          sld \<in> set (solids g) \<and> ID sld = coll_ID it
          \<and> find (\<lambda>s. ID s = coll_ID it) (solids g) = Some sld
          \<and> GetSolid g (coll_ID it) = Inr sld
          \<and> (distinct (map ID (solids g)) \<longrightarrow>
                 (\<forall>s' \<in> set (solids g). ID s' = coll_ID it \<longrightarrow> s' = sld))
          \<and> (ign \<longleftrightarrow> (\<exists>(a, b) \<in> set (ignoretimes sld).
                      x1 + (x2 - x1) * coll_s it \<ge> a \<and> x1 + (x2 - x1) * coll_s it < b)))
      \<and> mset (map fst colls) = mset (Collision g p1 p2)
      \<and> (hit \<longleftrightarrow> colls \<noteq> []))
   \<and> ((\<forall>it \<in> set (Collision g p1 p2). coll_ID it \<in> ID ` set (solids g)) \<longrightarrow>
        (\<exists>hit colls. GetCollisions g x1 p1 x2 p2 = Inr (hit, colls)))"
proof -
  have A: "GetCollisions g x1 p1 x2 p2 = Inr (hit, colls) \<longrightarrow>
      (\<forall>(it, ign) \<in> set colls. \<exists>sld.
          sld \<in> set (solids g) \<and> ID sld = coll_ID it
          \<and> find (\<lambda>s. ID s = coll_ID it) (solids g) = Some sld
          \<and> GetSolid g (coll_ID it) = Inr sld
          \<and> (distinct (map ID (solids g)) \<longrightarrow>
                 (\<forall>s' \<in> set (solids g). ID s' = coll_ID it \<longrightarrow> s' = sld))
          \<and> (ign \<longleftrightarrow> (\<exists>(a, b) \<in> set (ignoretimes sld).
                      x1 + (x2 - x1) * coll_s it \<ge> a \<and> x1 + (x2 - x1) * coll_s it < b)))
      \<and> mset (map fst colls) = mset (Collision g p1 p2)
      \<and> (hit \<longleftrightarrow> colls \<noteq> [])"
  proof
    assume a: "GetCollisions g x1 p1 x2 p2 = Inr (hit, colls)"
    then have t: "tag_collisions g x1 x2 (Collision g p1 p2) [] = Inr colls"
      and h: "hit = (colls \<noteq> [])"
      by (auto simp: GetCollisions_def split: sum.splits)
    have tags: "\<exists>sld.
          sld \<in> set (solids g) \<and> ID sld = coll_ID it
          \<and> find (\<lambda>s. ID s = coll_ID it) (solids g) = Some sld
          \<and> GetSolid g (coll_ID it) = Inr sld
          \<and> (distinct (map ID (solids g)) \<longrightarrow>
                 (\<forall>s' \<in> set (solids g). ID s' = coll_ID it \<longrightarrow> s' = sld))
          \<and> (ign \<longleftrightarrow> (\<exists>(a, b) \<in> set (ignoretimes sld).
                      x1 + (x2 - x1) * coll_s it \<ge> a \<and> x1 + (x2 - x1) * coll_s it < b))"
      if m: "(it, ign) \<in> set colls" for it ign
    proof -
      from tag_collisions_tags[OF t m] obtain sld where
        gs: "GetSolid g (coll_ID it) = Inr sld"
        and ig: "ign = is_ignored sld (x1 + (x2 - x1) * coll_s it)"
        by auto
      note f = GetSolid_Inr[OF gs]
      have u: "distinct (map ID (solids g)) \<longrightarrow>
                 (\<forall>s' \<in> set (solids g). ID s' = coll_ID it \<longrightarrow> s' = sld)"
        using unique_ID[of g sld] f(2,3) by auto
      from f gs u ig show ?thesis
        unfolding is_ignored_iff by blast
    qed
    have "mset (map fst colls) = mset (Collision g p1 p2)"
      using tag_collisions_mset[OF t] by simp
    with tags h show "(\<forall>(it, ign) \<in> set colls. \<exists>sld.
          sld \<in> set (solids g) \<and> ID sld = coll_ID it
          \<and> find (\<lambda>s. ID s = coll_ID it) (solids g) = Some sld
          \<and> GetSolid g (coll_ID it) = Inr sld
          \<and> (distinct (map ID (solids g)) \<longrightarrow>
                 (\<forall>s' \<in> set (solids g). ID s' = coll_ID it \<longrightarrow> s' = sld))
          \<and> (ign \<longleftrightarrow> (\<exists>(a, b) \<in> set (ignoretimes sld).
                      x1 + (x2 - x1) * coll_s it \<ge> a \<and> x1 + (x2 - x1) * coll_s it < b)))
      \<and> mset (map fst colls) = mset (Collision g p1 p2)
      \<and> (hit \<longleftrightarrow> colls \<noteq> [])"
      by blast
  qed
  have B: "(\<forall>it \<in> set (Collision g p1 p2). coll_ID it \<in> ID ` set (solids g)) \<longrightarrow>
        (\<exists>hit colls. GetCollisions g x1 p1 x2 p2 = Inr (hit, colls))"
  proof
    assume "\<forall>it \<in> set (Collision g p1 p2). coll_ID it \<in> ID ` set (solids g)"
    then have "list_all (\<lambda>it. coll_ID it \<in> ID ` set (solids g)) (Collision g p1 p2)"
      by (simp add: list_all_iff)
    from tag_collisions_total[OF this, of x1 x2 "[]"]
    obtain cs where "tag_collisions g x1 x2 (Collision g p1 p2) [] = Inr cs" by blast
    then show "\<exists>hit colls. GetCollisions g x1 p1 x2 p2 = Inr (hit, colls)"
      by (simp add: GetCollisions_def)
  qed
  from A B show ?thesis by blast
qed

lemma gate_geometry_run:
  "GetCollisions gate_geometry 0 (0,0,1) 2 (0,0,0)
     = Inr (True, [(shutter_coll, True), (window_coll, False)])"
  "GetCollisions gate_geometry 0 (0,0,1) 4 (0,0,0)
     = Inr (True, [(shutter_coll, False), (window_coll, False)])"
  by (simp_all add: GetCollisions_def GetSolid_def gate_geometry_def shutter_def window_def
      shutter_coll_def window_coll_def is_ignored_def coll_less_def)

theorem GetCollisions_ignore_tag_witness:
  "GetCollisions gate_geometry 0 (0,0,1) 2 (0,0,0)
     = Inr (True, [(shutter_coll, True), (window_coll, False)])
   \<and> GetCollisions gate_geometry 0 (0,0,1) 4 (0,0,0)
     = Inr (True, [(shutter_coll, False), (window_coll, False)])
   \<and> distinct (map ID (solids gate_geometry))
   \<and> GetSolid gate_geometry (coll_ID shutter_coll) = Inr shutter
   \<and> GetSolid gate_geometry (coll_ID window_coll) = Inr window
   \<and> ID shutter = coll_ID shutter_coll \<and> ID window = coll_ID window_coll
   \<and> (\<exists>x\<in>set (ignoretimes shutter). case x of (a, b) \<Rightarrow>
         a \<le> 0 + (2 - 0) * coll_s shutter_coll \<and> 0 + (2 - 0) * coll_s shutter_coll < b)
   \<and> \<not> (\<exists>x\<in>set (ignoretimes window). case x of (a, b) \<Rightarrow>
         a \<le> 0 + (2 - 0) * coll_s window_coll \<and> 0 + (2 - 0) * coll_s window_coll < b)
   \<and> \<not> (\<exists>x\<in>set (ignoretimes shutter). case x of (a, b) \<Rightarrow>
         a \<le> 0 + (4 - 0) * coll_s shutter_coll \<and> 0 + (4 - 0) * coll_s shutter_coll < b)"
proof -
  have d: "distinct (map ID (solids gate_geometry))"
    by (simp add: gate_geometry_def shutter_def window_def)
  have s: "GetSolid gate_geometry (coll_ID shutter_coll) = Inr shutter"
    "GetSolid gate_geometry (coll_ID window_coll) = Inr window"
    by (simp_all add: GetSolid_def gate_geometry_def shutter_def window_def shutter_coll_def
        window_coll_def)
  have i: "ID shutter = coll_ID shutter_coll" "ID window = coll_ID window_coll"
    by (simp_all add: shutter_def window_def shutter_coll_def window_coll_def)
  from GetCollisions_ignore_tag[of gate_geometry 0 "(0,0,1)" 2 "(0,0,0)" True
         "[(shutter_coll, True), (window_coll, False)]"]
    GetCollisions_ignore_tag[of gate_geometry 0 "(0,0,1)" 4 "(0,0,0)" True
         "[(shutter_coll, False), (window_coll, False)]"]
    gate_geometry_run d s i
  show ?thesis by simp
qed
subsection \<open>The collision resolver\<close>

lemma CheckHit_localised:
  "CheckSegment w y1 y2 \<Longrightarrow> Collisions w x1 y1 (hdid stp) y2 = coll # rest \<Longrightarrow>
   is_localised gl y1 y2 (coll # rest) coll iteration \<Longrightarrow>
   CheckHit gl w stp x1 y1 x2 y2 p iteration = localised w x1 y1 x2 y2 (coll # rest) coll p"
  by (subst CheckHit.simps) simp

lemma CheckHit_unresolved:
  "CheckSegment w y1 y2 \<Longrightarrow> Collisions w x1 y1 (hdid stp) y2 = coll # rest \<Longrightarrow>
   \<not> is_localised gl y1 y2 (coll # rest) coll iteration \<Longrightarrow>
   CheckHit gl w stp x1 y1 x2 y2 p iteration =
     bisect (\<lambda>xa ya xb yb pa. CheckHit gl w stp xa ya xb yb pa (iteration + 1))
       stp x1 y1 x2 y2 (coll_s coll) iteration p"
  by (subst CheckHit.simps) simp

lemma CheckHit_no_collision:
  "CheckSegment w y1 y2 \<Longrightarrow> Collisions w x1 y1 (hdid stp) y2 = [] \<Longrightarrow>
   CheckHit gl w stp x1 y1 x2 y2 p iteration = call_OnStep w x1 y1 x2 y2 p"
  by (subst CheckHit.simps) simp

lemma CheckHit_outside:
  "\<not> CheckSegment w y1 y2 \<Longrightarrow>
   CheckHit gl w stp x1 y1 x2 y2 p iteration = Inr (True, x2, y2, p\<lparr>pID := ID_HIT_BOUNDARIES\<rparr>)"
  by (subst CheckHit.simps) simp

text \<open>
  Claim C3, as amended. On a segment inside the bounding box with at least one collision
  record, the crossing is handled as localised exactly when the first record is the only
  record of the segment and both \<open>s * |distnormal|\<close> and \<open>(1 - s) * |distnormal|\<close>
  are below the tolerance, or when the iteration counter exceeds 99; otherwise the
  segment is cut.
\<close>

theorem CheckHit_localised_criterion:
  "CheckSegment w y1 y2 \<Longrightarrow> Collisions w x1 y1 (hdid stp) y2 = coll # rest \<Longrightarrow>
   CheckHit gl w stp x1 y1 x2 y2 p iteration =
     (if (rest = []
          \<and> coll_s coll * \<bar>distnormal y1 y2 coll\<bar> < REFLECT_TOLERANCE gl
          \<and> (1 - coll_s coll) * \<bar>distnormal y1 y2 coll\<bar> < REFLECT_TOLERANCE gl)
         \<or> iteration > 99
      then localised w x1 y1 x2 y2 (coll # rest) coll p
      else bisect (\<lambda>xa ya xb yb pa. CheckHit gl w stp xa ya xb yb pa (iteration + 1))
             stp x1 y1 x2 y2 (coll_s coll) iteration p)"
  by (subst CheckHit.simps) (simp add: is_localised_def)

lemma foil_dn: "distnormal (on_axis 0) (on_axis (1 / 1000000000)) foil_entry = - (1 / 1000000000)"
  by (simp add: distnormal_def on_axis_def foil_entry_def)

theorem CheckHit_localised_criterion_witness:
  "CheckSegment foil_world (on_axis 0) (on_axis (1 / 1000000000))
   \<and> Collisions foil_world 0 (on_axis 0) (hdid uniform_motion) (on_axis (1 / 1000000000))
          = foil_entry # [foil_exit]
   \<and> CheckHit G0 foil_world uniform_motion 0 (on_axis 0) (1 / 1000000000) (on_axis (1 / 1000000000)) (particle_in [1]) 100
       = localised foil_world 0 (on_axis 0) (1 / 1000000000) (on_axis (1 / 1000000000)) [foil_entry, foil_exit]
           foil_entry (particle_in [1])"
proof -
  have a: "CheckSegment foil_world (on_axis 0) (on_axis (1 / 1000000000))"
    by (simp add: foil_world_def)
  have b: "Collisions foil_world 0 (on_axis 0) (hdid uniform_motion) (on_axis (1 / 1000000000))
          = foil_entry # [foil_exit]"
    by (simp add: foil_world_def)
  show ?thesis
    using a b CheckHit_localised_criterion[OF a b, of G0 "1 / 1000000000" "particle_in [1]" 100]
    by simp
qed

text \<open>
  Claim C3 as stated fails: on the segment through the foil both products are below the
  tolerance for the first record and the iteration counter is 1, but the segment has two
  records, and the resolver cuts it.
\<close>

theorem localised_needs_single_record:
  "coll_s foil_entry * \<bar>distnormal (on_axis 0) (on_axis (1 / 1000000000)) foil_entry\<bar> < REFLECT_TOLERANCE G0
   \<and> (1 - coll_s foil_entry) * \<bar>distnormal (on_axis 0) (on_axis (1 / 1000000000)) foil_entry\<bar> < REFLECT_TOLERANCE G0
   \<and> CheckSegment foil_world (on_axis 0) (on_axis (1 / 1000000000))
   \<and> Collisions foil_world 0 (on_axis 0) (hdid uniform_motion) (on_axis (1 / 1000000000))
      = [foil_entry, foil_exit]
   \<and> \<not> is_localised G0 (on_axis 0) (on_axis (1 / 1000000000)) [foil_entry, foil_exit] foil_entry 1
   \<and> CheckHit G0 foil_world uniform_motion 0 (on_axis 0) (1 / 1000000000) (on_axis (1 / 1000000000)) (particle_in [1]) 1
      = bisect (\<lambda>xa ya xb yb pa. CheckHit G0 foil_world uniform_motion xa ya xb yb pa (1 + 1))
          uniform_motion 0 (on_axis 0) (1 / 1000000000) (on_axis (1 / 1000000000)) (coll_s foil_entry) 1 (particle_in [1])"
proof -
  have b: "Collisions foil_world 0 (on_axis 0) (hdid uniform_motion) (on_axis (1 / 1000000000))
          = [foil_entry, foil_exit]"
    by (simp add: foil_world_def)
  have c: "CheckSegment foil_world (on_axis 0) (on_axis (1 / 1000000000))"
    by (simp add: foil_world_def)
  have d: "\<not> is_localised G0 (on_axis 0) (on_axis (1 / 1000000000)) [foil_entry, foil_exit] foil_entry 1"
    by (simp add: is_localised_def)
  have e: "coll_s foil_entry * \<bar>distnormal (on_axis 0) (on_axis (1 / 1000000000)) foil_entry\<bar> < REFLECT_TOLERANCE G0"
    "(1 - coll_s foil_entry) * \<bar>distnormal (on_axis 0) (on_axis (1 / 1000000000)) foil_entry\<bar> < REFLECT_TOLERANCE G0"
    unfolding foil_dn by (simp_all add: G0_def foil_entry_def)
  from b c d e show ?thesis
    by (simp add: CheckHit_unresolved)
qed

lemma ID_NRERROR_value: "ID_NRERROR = - 3"
  by (simp add: ID_NRERROR_def)

lemma localised_error:
  assumes "(distnormal y1 y2 coll < 0 \<and> ID (geom_solids w (coll_ID coll)) \<in> set (currentsolids p))
           \<or> (distnormal y1 y2 coll > 0 \<and> ID (geom_solids w (coll_ID coll)) \<notin> set (currentsolids p))
           \<or> distnormal y1 y2 coll = 0"
  shows "localised w x1 y1 x2 y2 colls coll p = numerical_error x1 y1 p"
  using assms by (auto simp: localised_def hit_entering_def hit_leaving_def ptr_ID_def)

text \<open>
  Claim C4. In a localised crossing, when the particle enters a solid that is in the
  current-solid set, or leaves a solid that is not in the set, or moves perpendicular to
  the normal of the surface, the resolver returns "changed", the end point of the
  segment is the start point (\<open>x2 = x1\<close> and \<open>y2 = y1\<close>) and the fate of the
  particle is the numerical error \<open>-3\<close>; nothing else of the particle changes.
\<close>

theorem localised_inconsistency_stops:
  assumes "CheckSegment w y1 y2"
    and "Collisions w x1 y1 (hdid stp) y2 = coll # rest"
    and "is_localised gl y1 y2 (coll # rest) coll iteration"
    and "(distnormal y1 y2 coll < 0 \<and> ID (geom_solids w (coll_ID coll)) \<in> set (currentsolids p))
           \<or> (distnormal y1 y2 coll > 0 \<and> ID (geom_solids w (coll_ID coll)) \<notin> set (currentsolids p))
           \<or> distnormal y1 y2 coll = 0"
  shows "CheckHit gl w stp x1 y1 x2 y2 p iteration = Inr (True, x1, y1, p\<lparr>pID := - 3\<rparr>)"
  using assms(1-3) localised_error[OF assms(4)]
  by (simp add: CheckHit_localised numerical_error_def ID_NRERROR_def)

theorem localised_inconsistency_stops_witness:
  "CheckHit G0 (wall_world 2 0 (- 1, 0, 0)) uniform_motion (- (1 / 1000000000)) (on_axis (- (1 / 1000000000)))
         (1 / 1000000000) (on_axis (1 / 1000000000)) (particle_in [1, 2]) 1
       = Inr (True, - (1 / 1000000000), on_axis (- (1 / 1000000000)), (particle_in [1, 2])\<lparr>pID := - 3\<rparr>)
   \<and> CheckHit G0 (wall_world 2 0 (1, 0, 0)) uniform_motion (- (1 / 1000000000)) (on_axis (- (1 / 1000000000)))
         (1 / 1000000000) (on_axis (1 / 1000000000)) (particle_in [1]) 1
       = Inr (True, - (1 / 1000000000), on_axis (- (1 / 1000000000)), (particle_in [1])\<lparr>pID := - 3\<rparr>)
   \<and> CheckHit G0 (wall_world 2 0 (0, 0, 1)) uniform_motion (- (1 / 1000000000)) (on_axis (- (1 / 1000000000)))
         (1 / 1000000000) (on_axis (1 / 1000000000)) (particle_in [1]) 1
       = Inr (True, - (1 / 1000000000), on_axis (- (1 / 1000000000)), (particle_in [1])\<lparr>pID := - 3\<rparr>)"
proof -
  let ?y1 = "on_axis (- (1 / 1000000000))" and ?y2 = "on_axis (1 / 1000000000)"
  let ?c = "\<lambda>n0 n2. \<lparr> coll_s = 1 / 2, coll_normal = (n0, 0, n2), coll_ID = 2 \<rparr>"
  have b: "Collisions (wall_world 2 0 (n0, 0, n2)) (- (1 / 1000000000)) ?y1 (hdid uniform_motion) ?y2
             = ?c n0 n2 # []" for n0 n2 :: real
    by (simp add: wall_coll)
  have dn: "distnormal ?y1 ?y2 (?c n0 n2) = n0 / 500000000" for n0 n2 :: real
    by (simp add: distnormal_def)
  have loc: "is_localised G0 ?y1 ?y2 (?c n0 n2 # []) (?c n0 n2) 1" if "\<bar>n0\<bar> \<le> 1" for n0 n2 :: real
  proof -
    have "\<bar>n0 / 500000000\<bar> \<le> 1 / 500000000"
      using that by (simp add: abs_mult)
    then show ?thesis
      unfolding is_localised_def dn by (simp add: G0_def)
  qed
  have 1: "CheckHit G0 (wall_world 2 0 (- 1, 0, 0)) uniform_motion (- (1 / 1000000000)) ?y1
         (1 / 1000000000) ?y2 (particle_in [1, 2]) 1
       = Inr (True, - (1 / 1000000000), ?y1, (particle_in [1, 2])\<lparr>pID := - 3\<rparr>)"
    by (rule localised_inconsistency_stops[OF _ b loc]) (simp_all add: dn)
  have 2: "CheckHit G0 (wall_world 2 0 (1, 0, 0)) uniform_motion (- (1 / 1000000000)) ?y1
         (1 / 1000000000) ?y2 (particle_in [1]) 1
       = Inr (True, - (1 / 1000000000), ?y1, (particle_in [1])\<lparr>pID := - 3\<rparr>)"
    by (rule localised_inconsistency_stops[OF _ b loc]) (simp_all add: dn)
  have 3: "CheckHit G0 (wall_world 2 0 (0, 0, 1)) uniform_motion (- (1 / 1000000000)) ?y1
         (1 / 1000000000) ?y2 (particle_in [1]) 1
       = Inr (True, - (1 / 1000000000), ?y1, (particle_in [1])\<lparr>pID := - 3\<rparr>)"
    by (rule localised_inconsistency_stops[OF _ b loc]) (simp_all add: dn)
  from 1 2 3 show ?thesis by simp
qed

text \<open>
  What holds of the order of the IDs: when it does not admit a reaction, the
  hit handling is the call of \<^verbatim>\<open>OnStep\<close> alone, whatever \<^verbatim>\<open>OnHit\<close> is. The
  current-solid set, however, is then left as it was.
\<close>

lemma hit_entering_not_admitted:
  assumes "ID (geom_solids w (coll_ID coll)) \<notin> set (currentsolids p)"
    and "currentsolids p \<noteq> []"
    and "ID (geom_solids w (coll_ID coll)) \<le> last (currentsolids p)"
  shows "hit_entering w x1 y1 x2 y2 coll p = call_OnStep w x1 y1 x2 y2 p"
  using assms by (simp add: hit_entering_def ptr_ID_def after_hit_def)

lemma hit_leaving_not_admitted:
  assumes "ID (geom_solids w (coll_ID coll)) \<in> set (currentsolids p)"
    and "ID (geom_solids w (coll_ID coll)) \<noteq> last (currentsolids p)"
  shows "hit_leaving w x1 y1 x2 y2 coll p = call_OnStep w x1 y1 x2 y2 p"
  using assms by (simp add: hit_leaving_def ptr_ID_def after_hit_def)

lemma call_OnStep_currentsolids:
  "call_OnStep w x1 y1 x2 y2 p = Inr (changed, x2', y2', p') \<Longrightarrow> currentsolids p' = currentsolids p"
  by (auto simp: call_OnStep_def Let_def split: if_splits)

lemma call_OnStep_OnHit_irrelevant:
  "call_OnStep (w\<lparr>OnHit := h\<rparr>) x1 y1 x2 y2 p = call_OnStep w x1 y1 x2 y2 p"
  by (simp add: call_OnStep_def)

lemma localised_not_admitted:
  assumes "length colls > 1 \<longrightarrow> coll_ID coll = coll_ID (colls ! 1)"
    and "(distnormal y1 y2 coll < 0 \<and> ID (geom_solids w (coll_ID coll)) \<notin> set (currentsolids p)
            \<and> currentsolids p \<noteq> [] \<and> ID (geom_solids w (coll_ID coll)) \<le> last (currentsolids p))
         \<or> (distnormal y1 y2 coll > 0 \<and> ID (geom_solids w (coll_ID coll)) \<in> set (currentsolids p)
            \<and> ID (geom_solids w (coll_ID coll)) \<noteq> last (currentsolids p))"
  shows "localised w x1 y1 x2 y2 colls coll p = call_OnStep w x1 y1 x2 y2 p"
  using assms(2)
proof
  assume "distnormal y1 y2 coll < 0 \<and> ID (geom_solids w (coll_ID coll)) \<notin> set (currentsolids p)
            \<and> currentsolids p \<noteq> [] \<and> ID (geom_solids w (coll_ID coll)) \<le> last (currentsolids p)"
  then show ?thesis
    using assms(1) by (auto simp add: localised_def hit_entering_not_admitted)
next
  assume "distnormal y1 y2 coll > 0 \<and> ID (geom_solids w (coll_ID coll)) \<in> set (currentsolids p)
            \<and> ID (geom_solids w (coll_ID coll)) \<noteq> last (currentsolids p)"
  then show ?thesis
    using assms(1) by (auto simp add: localised_def hit_leaving_not_admitted)
qed

lemma localised_not_admitted_ignores_OnHit:
  assumes "length colls > 1 \<longrightarrow> coll_ID coll = coll_ID (colls ! 1)"
    and "(distnormal y1 y2 coll < 0 \<and> ID (geom_solids w (coll_ID coll)) \<notin> set (currentsolids p)
            \<and> currentsolids p \<noteq> [] \<and> ID (geom_solids w (coll_ID coll)) \<le> last (currentsolids p))
         \<or> (distnormal y1 y2 coll > 0 \<and> ID (geom_solids w (coll_ID coll)) \<in> set (currentsolids p)
            \<and> ID (geom_solids w (coll_ID coll)) \<noteq> last (currentsolids p))"
  shows "localised (w\<lparr>OnHit := h\<rparr>) x1 y1 x2 y2 colls coll p = localised w x1 y1 x2 y2 colls coll p"
proof -
  have "localised (w\<lparr>OnHit := h\<rparr>) x1 y1 x2 y2 colls coll p = call_OnStep (w\<lparr>OnHit := h\<rparr>) x1 y1 x2 y2 p"
    using assms by (intro localised_not_admitted) simp_all
  also have "\<dots> = call_OnStep w x1 y1 x2 y2 p"
    by (rule call_OnStep_OnHit_irrelevant)
  also have "\<dots> = localised w x1 y1 x2 y2 colls coll p"
    using assms by (intro localised_not_admitted[symmetric]) simp_all
  finally show ?thesis .
qed

lemma localised_not_admitted_keeps_set:
  assumes "length colls > 1 \<longrightarrow> coll_ID coll = coll_ID (colls ! 1)"
    and "(distnormal y1 y2 coll < 0 \<and> ID (geom_solids w (coll_ID coll)) \<notin> set (currentsolids p)
            \<and> currentsolids p \<noteq> [] \<and> ID (geom_solids w (coll_ID coll)) \<le> last (currentsolids p))
         \<or> (distnormal y1 y2 coll > 0 \<and> ID (geom_solids w (coll_ID coll)) \<in> set (currentsolids p)
            \<and> ID (geom_solids w (coll_ID coll)) \<noteq> last (currentsolids p))"
    and "localised w x1 y1 x2 y2 colls coll p = Inr (changed, x2', y2', p')"
  shows "currentsolids p' = currentsolids p"
  using localised_not_admitted[OF assms(1,2)] assms(3) call_OnStep_currentsolids
  by metis

text \<open>
  Claim C1, at the failing input. A slab of solid 3 lies between \<open>x = 0\<close> and
  \<open>x = 1\<close> inside solid 5, and the particle is inside the solids 1 and 5.
  Crossing into the slab at \<open>x = 0\<close> is localised and is not admitted by the order
  (3 is below 5): the resolver returns "unchanged" and the set is still \<open>[1, 5]\<close>,
  solid 3 has not been added. When the particle then crosses out of the slab at
  \<open>x = 1\<close>, the resolver finds solid 3 missing from the set and stops the particle
  with the numerical error. Likewise a particle with the set \<open>[1, 3, 5]\<close> that
  leaves solid 3 keeps solid 3 in its set.
\<close>

theorem lower_priority_crossing_not_recorded:
  "CheckHit G0 (slab_world 3 0 1) uniform_motion
       (- (1 / 1000000000)) (on_axis (- (1 / 1000000000)))
       (1 / 1000000000) (on_axis (1 / 1000000000)) (particle_in [1, 5]) 1
     = Inr (False, 1 / 1000000000, on_axis (1 / 1000000000), particle_in [1, 5])
   \<and> CheckHit G0 (slab_world 3 0 1) uniform_motion
       (999999999 / 1000000000) (on_axis (999999999 / 1000000000))
       (1000000001 / 1000000000) (on_axis (1000000001 / 1000000000)) (particle_in [1, 5]) 1
     = Inr (True, 999999999 / 1000000000, on_axis (999999999 / 1000000000),
            (particle_in [1, 5])\<lparr>pID := ID_NRERROR\<rparr>)
   \<and> CheckHit G0 (slab_world 3 0 1) uniform_motion
       (999999999 / 1000000000) (on_axis (999999999 / 1000000000))
       (1000000001 / 1000000000) (on_axis (1000000001 / 1000000000)) (particle_in [1, 3, 5]) 1
     = Inr (False, 1000000001 / 1000000000, on_axis (1000000001 / 1000000000), particle_in [1, 3, 5])"
proof -
  let ?in = "\<lparr> coll_s = 1 / 2, coll_normal = (- 1, 0, 0), coll_ID = 3 \<rparr>"
  let ?out = "\<lparr> coll_s = 1 / 2, coll_normal = (1, 0, 0), coll_ID = 3 \<rparr>"
  let ?a1 = "on_axis (- (1 / 1000000000))" and ?a2 = "on_axis (1 / 1000000000)"
  let ?b1 = "on_axis (999999999 / 1000000000)" and ?b2 = "on_axis (1000000001 / 1000000000)"
  have ca: "Collisions (slab_world 3 0 1) (- (1 / 1000000000)) ?a1 (hdid uniform_motion) ?a2 = ?in # []"
    by (simp add: slab_entry)
  have cb: "Collisions (slab_world 3 0 1) (999999999 / 1000000000) ?b1 (hdid uniform_motion) ?b2 = ?out # []"
    by (simp add: slab_exit)
  have dna: "distnormal ?a1 ?a2 ?in = - (1 / 500000000)"
    by (simp add: distnormal_def)
  have dnb: "distnormal ?b1 ?b2 ?out = 1 / 500000000"
    by (simp add: distnormal_def)
  have la: "is_localised G0 ?a1 ?a2 (?in # []) ?in 1"
    unfolding is_localised_def dna by (simp add: G0_def)
  have lb: "is_localised G0 ?b1 ?b2 (?out # []) ?out 1"
    unfolding is_localised_def dnb by (simp add: G0_def)
  have 1: "CheckHit G0 (slab_world 3 0 1) uniform_motion (- (1 / 1000000000)) ?a1
       (1 / 1000000000) ?a2 (particle_in [1, 5]) 1
     = Inr (False, 1 / 1000000000, ?a2, particle_in [1, 5])"
    unfolding CheckHit_localised[OF slab_fields(1) ca la] localised_def dna
    by (simp add: hit_entering_not_admitted pass_OnStep_call)
  have 2: "CheckHit G0 (slab_world 3 0 1) uniform_motion (999999999 / 1000000000) ?b1
       (1000000001 / 1000000000) ?b2 (particle_in [1, 5]) 1
     = Inr (True, 999999999 / 1000000000, ?b1, (particle_in [1, 5])\<lparr>pID := ID_NRERROR\<rparr>)"
    unfolding CheckHit_localised[OF slab_fields(1) cb lb] localised_def dnb
    by (simp add: hit_leaving_def ptr_ID_def numerical_error_def)
  have 3: "CheckHit G0 (slab_world 3 0 1) uniform_motion (999999999 / 1000000000) ?b1
       (1000000001 / 1000000000) ?b2 (particle_in [1, 3, 5]) 1
     = Inr (False, 1000000001 / 1000000000, ?b2, particle_in [1, 3, 5])"
    unfolding CheckHit_localised[OF slab_fields(1) cb lb] localised_def dnb
    by (simp add: hit_leaving_not_admitted pass_OnStep_call)
  from 1 2 3 show ?thesis by simp
qed



subsection \<open>The default solid stays in the current-solid set\<close>

lemma erase_first_keeps:
  "sb \<in> set cs \<Longrightarrow> ID (fst sb) \<noteq> i \<Longrightarrow> sb \<in> set (erase_first i cs)"
  by (induction cs) auto

lemma toggle_solids_keeps:
  "toggle_solids g c cs = Inr r \<Longrightarrow> sb \<in> set cs \<Longrightarrow>
     list_all (\<lambda>i. coll_ID (fst i) \<noteq> ID (fst sb)) c \<Longrightarrow> sb \<in> set r"
proof (induction c arbitrary: cs)
  case Nil
  then show ?case by simp
next
  case (Cons i c)
  show ?case
  proof (cases "list_ex (\<lambda>sb. ID (fst sb) = coll_ID (fst i)) cs")
    case True
    with Cons.prems have "toggle_solids g c (erase_first (coll_ID (fst i)) cs) = Inr r"
      by simp
    moreover from Cons.prems have "sb \<in> set (erase_first (coll_ID (fst i)) cs)"
      by (intro erase_first_keeps) auto
    ultimately show ?thesis using Cons.IH Cons.prems(3) by simp
  next
    case False
    with Cons.prems obtain sld where "toggle_solids g c (cs @ [(sld, snd i)]) = Inr r"
      by (auto split: sum.splits)
    moreover from Cons.prems have "sb \<in> set (cs @ [(sld, snd i)])" by simp
    ultimately show ?thesis using Cons.IH Cons.prems(3) by simp
  qed
qed

lemma GetSolids_default:
  assumes "GetSolids tol g t p = Inr r"
    and "list_all (\<lambda>c. coll_ID c \<noteq> ID (defaultsolid g))
           (Collision g p (fst (bbox_min g) - tol, fst (snd (bbox_min g)) - tol, snd (snd (bbox_min g)) - tol))"
  shows "(defaultsolid g, False) \<in> set r"
proof -
  obtain xmin ymin zmin where bb: "bbox_min g = (xmin, ymin, zmin)"
    by (cases "bbox_min g") auto
  let ?p2 = "(xmin - tol, ymin - tol, zmin - tol)"
  from assms(1) bb obtain hit c where gc: "GetCollisions g t p t ?p2 = Inr (hit, c)"
    by (auto simp: GetSolids_def split: sum.splits)
  show ?thesis
  proof (cases hit)
    case False
    with assms(1) bb gc show ?thesis by (auto simp add: GetSolids_def)
  next
    case True
    with assms(1) bb gc have tg: "toggle_solids g c [(defaultsolid g, False)] = Inr r"
      by (simp add: GetSolids_def)
    from gc have "tag_collisions g t t (Collision g p ?p2) [] = Inr c"
      by (auto simp: GetCollisions_def split: sum.splits)
    from tag_collisions_mset[OF this] have "set (map fst c) = set (Collision g p ?p2)"
      by (metis mset_eq_setD add.left_neutral list.simps(8) mset.simps(1))
    with assms(2) bb have "list_all (\<lambda>i. coll_ID (fst i) \<noteq> ID (fst (defaultsolid g, False))) c"
      by (auto simp: list_all_iff)
    from toggle_solids_keeps[OF tg _ this] show ?thesis by simp
  qed
qed

lemma hit_entering_keeps:
  "hit_entering w x1 y1 x2 y2 coll p = Inr (changed, x2', y2', p') \<Longrightarrow>
   d \<in> set (currentsolids p) \<Longrightarrow> d \<in> set (currentsolids p')"
  by (auto simp: hit_entering_def numerical_error_def after_hit_def call_OnStep_def Let_def
        set_insort_insert split: if_splits)

lemma hit_leaving_keeps:
  "hit_leaving w x1 y1 x2 y2 coll p = Inr (changed, x2', y2', p') \<Longrightarrow>
   d \<in> set (currentsolids p) \<Longrightarrow> ID (geom_solids w (coll_ID coll)) \<noteq> d \<Longrightarrow>
   d \<in> set (currentsolids p')"
  by (auto simp: hit_leaving_def numerical_error_def after_hit_def call_OnStep_def Let_def
        ptr_ID_def split: if_splits)

lemma localised_keeps:
  "localised w x1 y1 x2 y2 colls coll p = Inr (changed, x2', y2', p') \<Longrightarrow>
   d \<in> set (currentsolids p) \<Longrightarrow> ID (geom_solids w (coll_ID coll)) \<noteq> d \<Longrightarrow>
   d \<in> set (currentsolids p')"
  by (auto simp: localised_def numerical_error_def split: if_splits
        dest: hit_entering_keeps hit_leaving_keeps)

lemma call_OnStep_keeps:
  "call_OnStep w x1 y1 x2 y2 p = Inr (changed, x2', y2', p') \<Longrightarrow>
   d \<in> set (currentsolids p) \<Longrightarrow> d \<in> set (currentsolids p')"
  using call_OnStep_currentsolids by metis

lemma bisect_keeps:
  assumes rec: "\<And>xa ya xb yb pa changed x2' y2' p'.
            rec xa ya xb yb pa = Inr (changed, x2', y2', p') \<Longrightarrow>
            d \<in> set (currentsolids pa) \<Longrightarrow> d \<in> set (currentsolids p')"
    and "bisect rec stp x1 y1 x2 y2 s iteration p = Inr (changed, x2', y2', p')"
    and "d \<in> set (currentsolids p)"
  shows "d \<in> set (currentsolids p')"
proof -
  from assms(2) obtain c1 xb1 yb1 xb2 yb2 p1 where
    cb: "cut_before rec stp x1 y1 x2 s iteration p = Inr (c1, xb1, yb1, xb2, yb2, p1)"
    by (auto simp: bisect_def split: sum.splits)
  have p1: "d \<in> set (currentsolids p1)"
    using cb assms(3) rec
    by (auto simp: cut_before_def Let_def split: if_splits sum.splits)
  show ?thesis
  proof (cases c1)
    case True
    with assms(2) cb p1 show ?thesis by (simp add: bisect_def)
  next
    case False
    with assms(2) cb obtain c2 xc yc p2 where
      ca: "cut_after rec stp x1 x2 s iteration xb1 yb1 xb2 yb2 p1 = Inr (c2, xc, yc, p2)"
      by (auto simp: bisect_def split: sum.splits)
    have p2: "d \<in> set (currentsolids p2)"
      using ca p1 rec by (auto simp: cut_after_def Let_def split: if_splits)
    show ?thesis
    proof (cases c2)
      case True
      with assms(2) cb ca \<open>\<not> c1\<close> p2 show ?thesis by (simp add: bisect_def)
    next
      case c2: False
      with assms(2) cb ca \<open>\<not> c1\<close> have "rec xc yc x2 y2 p2 = Inr (changed, x2', y2', p')"
        by (simp add: bisect_def)
      from rec[OF this p2] show ?thesis .
    qed
  qed
qed

lemma CheckHit_keeps:
  "\<forall>x1 y1 h y2. \<forall>c \<in> set (Collisions w x1 y1 h y2). ID (geom_solids w (coll_ID c)) \<noteq> d \<Longrightarrow>
   CheckHit gl w stp x1 y1 x2 y2 p iteration = Inr (changed, x2', y2', p') \<Longrightarrow>
   d \<in> set (currentsolids p) \<Longrightarrow> d \<in> set (currentsolids p')"
proof (induction gl w stp x1 y1 x2 y2 p iteration arbitrary: changed x2' y2' p' rule: CheckHit.induct)
  case (1 gl w stp x1 y1 x2 y2 p iteration)
  note nohit = "1.prems"(1) and res = "1.prems"(2) and mem = "1.prems"(3)
  show ?case
  proof (cases "CheckSegment w y1 y2")
    case False
    with res mem show ?thesis by (auto simp add: CheckHit_outside)
  next
    case inside: True
    show ?thesis
    proof (cases "Collisions w x1 y1 (hdid stp) y2")
      case Nil
      with inside res mem show ?thesis
        by (simp add: CheckHit_no_collision call_OnStep_keeps)
    next
      case (Cons coll rest)
      show ?thesis
      proof (cases "is_localised gl y1 y2 (coll # rest) coll iteration")
        case True
        have "ID (geom_solids w (coll_ID coll)) \<noteq> d"
          using nohit Cons by (metis list.set_intros(1))
        with inside Cons True res mem show ?thesis
          by (simp add: CheckHit_localised localised_keeps)
      next
        case False
        from inside Cons False res
        have b: "bisect (\<lambda>xa ya xb yb pa. CheckHit gl w stp xa ya xb yb pa (iteration + 1))
                   stp x1 y1 x2 y2 (coll_s coll) iteration p = Inr (changed, x2', y2', p')"
          by (simp add: CheckHit_unresolved)
        show ?thesis
        proof (rule bisect_keeps[OF _ b mem])
          fix xa ya xb yb pa ch xe ye pe
          assume "CheckHit gl w stp xa ya xb yb pa (iteration + 1) = Inr (ch, xe, ye, pe)"
            and "d \<in> set (currentsolids pa)"
          then show "d \<in> set (currentsolids pe)"
            using "1.IH"[OF _ Cons False nohit] inside by blast
        qed
      qed
    qed
  qed
qed


lemma sample_step_keeps:
  assumes "\<forall>x1 y1 h y2. \<forall>c \<in> set (Collisions w x1 y1 h y2). ID (geom_solids w (coll_ID c)) \<noteq> d"
    and "sample_step gl sp field w stp s = Inr s'"
    and "d \<in> set (currentsolids (self s))"
  shows "d \<in> set (currentsolids (self s'))"
proof -
  obtain x2 y2 where np: "next_piece stp (loc_x s) (loc_y s) (loc_x1 s) (loc_y1 s) = (x2, y2)"
    by (cases "next_piece stp (loc_x s) (loc_y s) (loc_x1 s) (loc_y1 s)") auto
  with assms(2) obtain changed x2' y2' p where
    ch: "CheckHit gl w stp (loc_x1 s) (loc_y1 s) x2 y2 (self s) 1 = Inr (changed, x2', y2', p)"
    and s': "currentsolids (self s') = currentsolids p"
    by (auto simp: sample_step_def Let_def split: sum.splits)
  from CheckHit_keeps[OF assms(1) ch assms(3)] s' show ?thesis by simp
qed

lemma sample_loop_keeps:
  assumes "\<forall>x1 y1 h y2. \<forall>c \<in> set (Collisions w x1 y1 h y2). ID (geom_solids w (coll_ID c)) \<noteq> d"
  shows "sample_loop n gl sp field w stp s = Some (Inr s') \<Longrightarrow>
    d \<in> set (currentsolids (self s)) \<Longrightarrow> d \<in> set (currentsolids (self s'))"
proof (induction n arbitrary: s)
  case 0
  then show ?case by (auto split: if_splits)
next
  case (Suc n)
  show ?case
  proof (cases "loc_x1 s < loc_x s")
    case False
    with Suc.prems show ?thesis by auto
  next
    case True
    with Suc.prems(1) obtain s1 where s1: "sample_step gl sp field w stp s = Inr s1"
      and rest: "sample_loop n gl sp field w stp s1 = Some (Inr s')"
      by (auto split: sum.splits)
    from sample_step_keeps[OF assms s1 Suc.prems(2)] Suc.IH[OF rest] show ?thesis by blast
  qed
qed

lemma integration_step_keeps:
  assumes "\<forall>x1 y1 h y2. \<forall>c \<in> set (Collisions w x1 y1 h y2). ID (geom_solids w (coll_ID c)) \<noteq> d"
    and "integration_step n gl sp field w stepper tmax s = Some (Inr s')"
    and "d \<in> set (currentsolids (self s))"
  shows "d \<in> set (currentsolids (self s'))"
proof -
  define h2 where "h2 = (let h1 = (if loc_x s + loc_h s > tstart (self s) + tau (self s)
                                   then tstart (self s) + tau (self s) - loc_x s else loc_h s)
                         in if loc_x s + h1 > tmax then tmax - loc_x s else h1)"
  define s1 where "s1 = (case stepper_step stepper h2 (loc_x s) (loc_y s) (loc_k s) of
                  None \<Rightarrow> s\<lparr> loc_x1 := loc_x s, loc_y1 := loc_y s, loc_h := h2,
                             self := (self s)\<lparr> pID := ID_NRERROR \<rparr> \<rparr>
                | Some (x', y', k') \<Rightarrow>
                    s\<lparr> loc_x := x', loc_y := y', loc_x1 := loc_x s, loc_y1 := loc_y s,
                       loc_h := h2, loc_k := k', self := (self s)\<lparr> Nstep := Nstep (self s) + 1 \<rparr> \<rparr>)"
  have m1: "d \<in> set (currentsolids (self s1))"
    using assms(3) by (auto simp: s1_def split: option.splits)
  from assms(2) obtain s2 where
    loop: "sample_loop n gl sp field w (stepper_view stepper (loc_k s1)) s1 = Some (Inr s2)"
    and s': "currentsolids (self s') = currentsolids (self s2)"
    by (auto simp: integration_step_def Let_def s1_def h2_def split: option.splits sum.splits if_splits)
  from sample_loop_keeps[OF assms(1) loop m1] s' show ?thesis by simp
qed

lemma Integrate_loop_keeps:
  assumes "\<forall>x1 y1 h y2. \<forall>c \<in> set (Collisions w x1 y1 h y2). ID (geom_solids w (coll_ID c)) \<noteq> d"
  shows "Integrate_loop m n gl sp field w stepper tmax s = Some (Inr s') \<Longrightarrow>
    d \<in> set (currentsolids (self s)) \<Longrightarrow> d \<in> set (currentsolids (self s'))"
proof (induction m arbitrary: s)
  case 0
  then show ?case by (auto split: if_splits)
next
  case (Suc m)
  show ?case
  proof (cases "pID (self s) = ID_UNKNOWN")
    case False
    with Suc.prems show ?thesis by auto
  next
    case True
    with Suc.prems(1) obtain s1 where s1: "integration_step n gl sp field w stepper tmax s = Some (Inr s1)"
      and rest: "Integrate_loop m n gl sp field w stepper tmax s1 = Some (Inr s')"
      by (auto split: sum.splits option.splits)
    from integration_step_keeps[OF assms s1 Suc.prems(2)] Suc.IH[OF rest] show ?thesis by blast
  qed
qed

lemma InitV_keeps:
  "(if currentsolids p = [] then d \<in> set (InitialSolids w t \<lparr> y_0 = x, y_1 = y, y_2 = z, y_3 = vx, y_4 = vy, y_5 = vz \<rparr>)
    else d \<in> set (currentsolids p)) \<Longrightarrow>
   d \<in> set (currentsolids (InitV gl sp field w t atau x y z vx vy vz pol trajl p))"
  by (auto simp: InitV_def Let_def split: if_splits)
subsection \<open>What the resolver leaves untouched\<close>

lemma same_but_fate_refl [simp]: "same_but_fate p p"
  by (simp add: same_but_fate_def)

lemma same_but_fate_update [simp]:
  "same_but_fate p (p'\<lparr>pID := i\<rparr>) = same_but_fate p p'"
  "same_but_fate p (p'\<lparr>user := u\<rparr>) = same_but_fate p p'"
  "same_but_fate p (p'\<lparr>currentsolids := cs\<rparr>) = same_but_fate p p'"
  by (simp_all add: same_but_fate_def)

lemma same_but_fate_trans:
  "same_but_fate p p1 \<Longrightarrow> same_but_fate p1 p2 \<Longrightarrow> same_but_fate p p2"
  by (cases p, cases p1, cases p2) (simp add: same_but_fate_def)

lemma same_but_fate_fields:
  "same_but_fate p p' \<Longrightarrow>
   Hmax p' = Hmax p \<and> lend p' = lend p \<and> polend p' = polend p \<and> polstart p' = polstart p
   \<and> tstart p' = tstart p \<and> tau p' = tau p \<and> maxtraj p' = maxtraj p \<and> Nstep p' = Nstep p
   \<and> ystart p' = ystart p \<and> yend p' = yend p \<and> tend p' = tend p"
  by (cases p, cases p') (simp add: same_but_fate_def)

lemma call_OnStep_frame:
  "call_OnStep w x1 y1 x2 y2 p = Inr (changed, x2', y2', p') \<Longrightarrow> same_but_fate p p'"
  by (auto simp: call_OnStep_def Let_def split: if_splits)

lemma hit_entering_frame:
  "hit_entering w x1 y1 x2 y2 coll p = Inr (changed, x2', y2', p') \<Longrightarrow> same_but_fate p p'"
  by (auto simp: hit_entering_def numerical_error_def after_hit_def call_OnStep_def Let_def
        split: if_splits)

lemma hit_leaving_frame:
  "hit_leaving w x1 y1 x2 y2 coll p = Inr (changed, x2', y2', p') \<Longrightarrow> same_but_fate p p'"
  by (auto simp: hit_leaving_def numerical_error_def after_hit_def call_OnStep_def Let_def
        split: if_splits)

lemma localised_frame:
  "localised w x1 y1 x2 y2 colls coll p = Inr (changed, x2', y2', p') \<Longrightarrow> same_but_fate p p'"
  by (auto simp: localised_def numerical_error_def split: if_splits
        dest: hit_entering_frame hit_leaving_frame)

lemma bisect_frame:
  assumes rec: "\<And>xa ya xb yb pa changed x2' y2' p'.
            rec xa ya xb yb pa = Inr (changed, x2', y2', p') \<Longrightarrow> same_but_fate pa p'"
    and "bisect rec stp x1 y1 x2 y2 s iteration p = Inr (changed, x2', y2', p')"
  shows "same_but_fate p p'"
proof -
  from assms(2) obtain c1 xb1 yb1 xb2 yb2 p1 where
    cb: "cut_before rec stp x1 y1 x2 s iteration p = Inr (c1, xb1, yb1, xb2, yb2, p1)"
    by (auto simp: bisect_def split: sum.splits)
  have p1: "same_but_fate p p1"
    using cb rec
    by (auto simp: cut_before_def Let_def split: if_splits sum.splits)
  show ?thesis
  proof (cases c1)
    case True
    with assms(2) cb p1 show ?thesis by (simp add: bisect_def)
  next
    case False
    with assms(2) cb obtain c2 xc yc p2 where
      ca: "cut_after rec stp x1 x2 s iteration xb1 yb1 xb2 yb2 p1 = Inr (c2, xc, yc, p2)"
      by (auto simp: bisect_def split: sum.splits)
    have "same_but_fate p1 p2"
      using ca rec by (auto simp: cut_after_def Let_def split: if_splits)
    with p1 have p2: "same_but_fate p p2" by (rule same_but_fate_trans)
    show ?thesis
    proof (cases c2)
      case True
      with assms(2) cb ca \<open>\<not> c1\<close> p2 show ?thesis by (simp add: bisect_def)
    next
      case c2: False
      with assms(2) cb ca \<open>\<not> c1\<close> have "rec xc yc x2 y2 p2 = Inr (changed, x2', y2', p')"
        by (simp add: bisect_def)
      from same_but_fate_trans[OF p2 rec[OF this]] show ?thesis .
    qed
  qed
qed

lemma CheckHit_frame:
  "CheckHit gl w stp x1 y1 x2 y2 p iteration = Inr (changed, x2', y2', p') \<Longrightarrow> same_but_fate p p'"
proof (induction gl w stp x1 y1 x2 y2 p iteration arbitrary: changed x2' y2' p' rule: CheckHit.induct)
  case (1 gl w stp x1 y1 x2 y2 p iteration)
  note res = "1.prems"
  show ?case
  proof (cases "CheckSegment w y1 y2")
    case False
    with res show ?thesis by (auto simp add: CheckHit_outside)
  next
    case inside: True
    show ?thesis
    proof (cases "Collisions w x1 y1 (hdid stp) y2")
      case Nil
      with inside res show ?thesis
        by (simp add: CheckHit_no_collision call_OnStep_frame)
    next
      case (Cons coll rest)
      show ?thesis
      proof (cases "is_localised gl y1 y2 (coll # rest) coll iteration")
        case True
        with inside Cons res show ?thesis
          by (simp add: CheckHit_localised localised_frame)
      next
        case False
        from inside Cons False res
        have b: "bisect (\<lambda>xa ya xb yb pa. CheckHit gl w stp xa ya xb yb pa (iteration + 1))
                   stp x1 y1 x2 y2 (coll_s coll) iteration p = Inr (changed, x2', y2', p')"
          by (simp add: CheckHit_unresolved)
        show ?thesis
          by (rule bisect_frame[OF _ b]) (use "1.IH"[OF _ Cons False] inside in blast)
      qed
    qed
  qed
qed

lemma sample_step_Hmax:
  assumes "sample_step gl sp field w stp s = Inr s'"
  shows "Hmax (self s) \<le> Hmax (self s')"
    and "Hmax (self s') = max (Ekin gl sp (loc_y1 s') + Epot gl sp (loc_x s') (loc_y1 s') (polend (self s)) field)
                              (Hmax (self s))"
proof -
  obtain x2 y2 where np: "next_piece stp (loc_x s) (loc_y s) (loc_x1 s) (loc_y1 s) = (x2, y2)"
    by (cases "next_piece stp (loc_x s) (loc_y s) (loc_x1 s) (loc_y1 s)") auto
  with assms obtain changed x2' y2' p where
    ch: "CheckHit gl w stp (loc_x1 s) (loc_y1 s) x2 y2 (self s) 1 = Inr (changed, x2', y2', p)"
    and s': "s' = s\<lparr> loc_x := (if changed then x2' else loc_x s),
                      loc_y := (if changed then y2' else loc_y s), loc_x1 := x2', loc_y1 := y2',
                        pieces := pieces s @ [(loc_x1 s, loc_y1 s, x2, y2)],
                        self := p\<lparr> lend := lend p + sqrt ((y_0 y2' - y_0 (loc_y1 s))\<^sup>2
                                                           + (y_1 y2' - y_1 (loc_y1 s))\<^sup>2
                                                           + (y_2 y2' - y_2 (loc_y1 s))\<^sup>2),
                                   Hmax := max (Ekin gl sp y2' + Epot gl sp (if changed then x2' else loc_x s) y2' (polend p) field)
                                               (Hmax p) \<rparr> \<rparr>"
    by (auto simp: sample_step_def Let_def split: sum.splits)
  from same_but_fate_fields[OF CheckHit_frame[OF ch]] have f: "Hmax p = Hmax (self s)" "polend p = polend (self s)"
    by simp_all
  show "Hmax (self s) \<le> Hmax (self s')" using s' f by simp
  show "Hmax (self s') = max (Ekin gl sp (loc_y1 s') + Epot gl sp (loc_x s') (loc_y1 s') (polend (self s)) field)
                              (Hmax (self s))"
    using s' f by simp
qed

lemma sample_loop_Hmax:
  "sample_loop n gl sp field w stp s = Some (Inr s') \<Longrightarrow> Hmax (self s) \<le> Hmax (self s')"
proof (induction n arbitrary: s)
  case 0
  then show ?case by (auto split: if_splits)
next
  case (Suc n)
  show ?case
  proof (cases "loc_x1 s < loc_x s")
    case False
    with Suc.prems show ?thesis by auto
  next
    case True
    with Suc.prems(1) obtain s1 where s1: "sample_step gl sp field w stp s = Inr s1"
      and rest: "sample_loop n gl sp field w stp s1 = Some (Inr s')"
      by (auto split: sum.splits)
    from sample_step_Hmax(1)[OF s1] Suc.IH[OF rest] show ?thesis by simp
  qed
qed

lemma InitV_Hmax:
  "Hmax (InitV gl sp field w t atau x y z vx vy vz pol trajl p)
     = Ekin gl sp \<lparr> y_0 = x, y_1 = y, y_2 = z, y_3 = vx, y_4 = vy, y_5 = vz \<rparr>
       + Epot gl sp t \<lparr> y_0 = x, y_1 = y, y_2 = z, y_3 = vx, y_4 = vy, y_5 = vz \<rparr> pol field"
  by (simp add: InitV_def Let_def Hstart_def)
subsection \<open>The pieces of an accepted step\<close>

lemma next_piece_bound:
  assumes "x1 < x" and "next_piece stp x y x1 y1 = (x2, y2)"
  shows "x1 < x2 \<and> x2 \<le> x
         \<and> (x2 - x1) * sqrt (y_3 y1 * y_3 y1 + y_4 y1 * y_4 y1 + y_5 y1 * y_5 y1) \<le> MAX_SAMPLE_DIST
         \<and> (x2 < x \<longrightarrow> y2 = dense_out stp x2
               \<and> (x2 - x1) * sqrt (y_3 y1 * y_3 y1 + y_4 y1 * y_4 y1 + y_5 y1 * y_5 y1) = MAX_SAMPLE_DIST)
         \<and> (x2 = x \<longrightarrow> y2 = y)"
proof -
  define v1 where "v1 = sqrt (y_3 y1 * y_3 y1 + y_4 y1 * y_4 y1 + y_5 y1 * y_5 y1)"
  have v0: "0 \<le> v1" unfolding v1_def by simp
  have M: "0 < MAX_SAMPLE_DIST" by (simp add: MAX_SAMPLE_DIST_def)
  show ?thesis
  proof (cases "v1 = 0 \<or> x1 + MAX_SAMPLE_DIST / v1 \<ge> x")
    case True
    with assms(2) have e: "x2 = x" "y2 = y"
      by (auto simp: next_piece_def v1_def Let_def)
    have "(x - x1) * v1 \<le> MAX_SAMPLE_DIST"
    proof (cases "v1 = 0")
      case True
      then show ?thesis using M by simp
    next
      case False
      with v0 have vp: "0 < v1" by simp
      from True False have "x - x1 \<le> MAX_SAMPLE_DIST / v1" by simp
      then show ?thesis using vp by (simp add: pos_le_divide_eq)
    qed
    with e assms(1) show ?thesis by (simp add: v1_def)
  next
    case False
    then have vp: "0 < v1" and lt: "x1 + MAX_SAMPLE_DIST / v1 < x"
      using v0 by auto
    from False assms(2) have e: "x2 = x1 + MAX_SAMPLE_DIST / v1" "y2 = dense_out stp x2"
      by (auto simp: next_piece_def v1_def Let_def)
    have "0 < MAX_SAMPLE_DIST / v1" using M vp by simp
    moreover have "(x2 - x1) * v1 = MAX_SAMPLE_DIST" using e vp by simp
    ultimately show ?thesis using e lt by (simp add: v1_def)
  qed
qed

lemma sample_step_pieces:
  "sample_step gl sp field w stp s = Inr s' \<Longrightarrow>
   pieces s' = pieces s @ [(loc_x1 s, loc_y1 s,
                            fst (next_piece stp (loc_x s) (loc_y s) (loc_x1 s) (loc_y1 s)),
                            snd (next_piece stp (loc_x s) (loc_y s) (loc_x1 s) (loc_y1 s)))]"
  by (auto simp: sample_step_def Let_def split: prod.splits sum.splits)


lemma sample_loop_pieces:
  "sample_loop n gl sp field w stp s = Some (Inr s') \<Longrightarrow>
   list_all piece_in_time (pieces s) \<Longrightarrow> list_all piece_in_time (pieces s')"
proof (induction n arbitrary: s)
  case 0
  then show ?case by (auto split: if_splits)
next
  case (Suc n)
  show ?case
  proof (cases "loc_x1 s < loc_x s")
    case False
    with Suc.prems show ?thesis by auto
  next
    case True
    with Suc.prems(1) obtain s1 where s1: "sample_step gl sp field w stp s = Inr s1"
      and rest: "sample_loop n gl sp field w stp s1 = Some (Inr s')"
      by (auto split: sum.splits)
    obtain x2 y2 where np: "next_piece stp (loc_x s) (loc_y s) (loc_x1 s) (loc_y1 s) = (x2, y2)"
      by (cases "next_piece stp (loc_x s) (loc_y s) (loc_x1 s) (loc_y1 s)") auto
    from next_piece_bound[OF True np] have "piece_in_time (loc_x1 s, loc_y1 s, x2, y2)"
      by (simp add: piece_in_time_def)
    with sample_step_pieces[OF s1] np Suc.prems(2) have "list_all piece_in_time (pieces s1)"
      by simp
    from Suc.IH[OF rest this] show ?thesis .
  qed
qed


lemma Ekin_nonrel:
  assumes "speed y / c_0 gl < RELATIVISTIC_THRESHOLD gl"
  shows "Ekin gl sp y = 0.5 * sp_m sp * (y_3 y * y_3 y + y_4 y * y_4 y + y_5 y * y_5 y)"
proof -
  have nn: "0 \<le> y_3 y * y_3 y + y_4 y * y_4 y + y_5 y * y_5 y" by simp
  have "Ekin gl sp y = 0.5 * sp_m sp * (speed y * speed y)"
    using assms by (simp add: Ekin_def speed_def Let_def)
  also have "speed y * speed y = y_3 y * y_3 y + y_4 y * y_4 y + y_5 y * y_5 y"
    unfolding speed_def using nn by (metis abs_of_nonneg real_sqrt_mult_self)
  finally show ?thesis .
qed

lemma speed_fall: "0 \<le> t \<Longrightarrow> speed (fall t) = 1 + gravconst G0 * t"
proof -
  assume t: "0 \<le> t"
  have g: "0 \<le> gravconst G0" by (simp add: G0_def)
  have "speed (fall t) = sqrt ((1 + gravconst G0 * t) * (1 + gravconst G0 * t))"
    by (simp add: speed_def fall_def algebra_simps)
  also have "\<dots> = \<bar>1 + gravconst G0 * t\<bar>" by (metis real_sqrt_abs2)
  also have "\<dots> = 1 + gravconst G0 * t" using t g by simp
  finally show ?thesis .
qed


lemma next_piece_fall:
  "next_piece falling (1 / 50) (fall (1 / 50)) 0 (fall 0) = (1 / 100, fall (1 / 100))"
proof -
  have "sqrt (y_3 (fall 0) * y_3 (fall 0) + y_4 (fall 0) * y_4 (fall 0) + y_5 (fall 0) * y_5 (fall 0)) = 1"
    using speed_fall[of 0] by (simp add: speed_def)
  then show ?thesis
    by (simp add: next_piece_def falling_def MAX_SAMPLE_DIST_def)
qed


lemma dropped_sel [simp]:
  "currentsolids dropped = [1]" "pID dropped = ID_UNKNOWN" "user dropped = ()"
  "polend dropped = 1" "polstart dropped = 1" "tstart dropped = 0" "ystart dropped = fall 0"
  "lend dropped = 0" "Hmax dropped = Hstart G0 neutron (Some pulse) dropped"
  by (simp_all add: dropped_def InitV_def Let_def particle_in_def wall_world_def fall_def Hstart_def)

lemma fall_sel [simp]:
  "y_0 (fall t) = 0" "y_1 (fall t) = 0" "y_2 (fall t) = - t - gravconst G0 / 2 * t * t"
  "y_3 (fall t) = 0" "y_4 (fall t) = 0" "y_5 (fall t) = - 1 - gravconst G0 * t"
  by (simp_all add: fall_def)

lemma CheckHit_fall:
  "CheckHit G0 (wall_world 2 1000 (- 1, 0, 0)) falling a (fall a) b (fall b) dropped 1
     = Inr (False, b, fall b, dropped)"
  by (simp add: CheckHit_no_collision wall_no_coll pass_OnStep_call)

lemma distance_fall:
  "distance (fall 0) (fall (1 / 100)) = 1 / 100 + gravconst G0 / 20000"
proof -
  have "distance (fall 0) (fall (1 / 100)) = sqrt ((1 / 100 + gravconst G0 / 20000)\<^sup>2)"
    by (simp add: distance_def power2_eq_square algebra_simps)
  also have "\<dots> = \<bar>1 / 100 + gravconst G0 / 20000\<bar>" by (rule real_sqrt_abs)
  also have "\<dots> = 1 / 100 + gravconst G0 / 20000" by (simp add: G0_def)
  finally show ?thesis .
qed

text \<open>
  What the inner loop bounds is the time that a piece lasts. The piece that it takes
  next is not empty, ends at the latest at the end of the accepted step, and lasts at
  most \<^verbatim>\<open>MAX_SAMPLE_DIST\<close> \<open>= 0.01\<close> divided by the speed at its start: it lasts
  exactly that long and ends at a point of the dense output unless it is the last
  piece, which ends at the end of the step. So for every piece that a run of the inner
  loop hands to the collision resolver, the time length times the speed at the start
  is at most \<^verbatim>\<open>MAX_SAMPLE_DIST\<close>.
\<close>

lemma pieces_bounded_by_start_speed:
  "(x1 < x \<and> next_piece stp x y x1 y1 = (x2, y2) \<longrightarrow>
       x1 < x2 \<and> x2 \<le> x \<and> (x2 - x1) * speed y1 \<le> MAX_SAMPLE_DIST
       \<and> (x2 < x \<longrightarrow> (x2 - x1) * speed y1 = MAX_SAMPLE_DIST \<and> y2 = dense_out stp x2)
       \<and> (x2 = x \<longrightarrow> y2 = y))
   \<and> (sample_loop n gl sp field w stp s = Some (Inr s') \<and> pieces s = [] \<longrightarrow>
        (\<forall>(xa, ya, xb, yb) \<in> set (pieces s').
           xa < xb \<and> (xb - xa) * speed ya \<le> MAX_SAMPLE_DIST))
   \<and> MAX_SAMPLE_DIST = 0.01"
proof -
  have A: "x1 < x \<and> next_piece stp x y x1 y1 = (x2, y2) \<longrightarrow>
       x1 < x2 \<and> x2 \<le> x \<and> (x2 - x1) * speed y1 \<le> MAX_SAMPLE_DIST
       \<and> (x2 < x \<longrightarrow> (x2 - x1) * speed y1 = MAX_SAMPLE_DIST \<and> y2 = dense_out stp x2)
       \<and> (x2 = x \<longrightarrow> y2 = y)"
    unfolding speed_def using next_piece_bound[of x1 x stp y y1 x2 y2] by blast
  have B: "sample_loop n gl sp field w stp s = Some (Inr s') \<and> pieces s = [] \<longrightarrow>
        (\<forall>(xa, ya, xb, yb) \<in> set (pieces s').
           xa < xb \<and> (xb - xa) * speed ya \<le> MAX_SAMPLE_DIST)"
  proof
    assume a: "sample_loop n gl sp field w stp s = Some (Inr s') \<and> pieces s = []"
    then have "list_all piece_in_time (pieces s')"
      using sample_loop_pieces[of n gl sp field w stp s s'] by simp
    then show "\<forall>(xa, ya, xb, yb) \<in> set (pieces s').
           xa < xb \<and> (xb - xa) * speed ya \<le> MAX_SAMPLE_DIST"
      by (auto simp: list_all_iff piece_in_time_def speed_def mult.commute)
  qed
  have C: "MAX_SAMPLE_DIST = 0.01" by (simp add: MAX_SAMPLE_DIST_def)
  from A B C show ?thesis by blast
qed

text \<open>
  A piece that starts at rest is the whole rest of the accepted step, however long the
  step is: the quotient \<^verbatim>\<open>MAX_SAMPLE_DIST/v1\<close> is infinite.
\<close>

lemma next_piece_from_rest:
  "speed y1 = 0 \<Longrightarrow> next_piece stp x y x1 y1 = (x, y)"
  by (simp add: next_piece_def speed_def)


lemma speed_on_axis [simp]: "speed (on_axis a) = 1"
  by (simp add: speed_def)

lemma next_piece_on_axis:
  "next_piece uniform_motion x (on_axis x) a (on_axis a)
     = (if a + 1 / 100 \<ge> x then (x, on_axis x) else (a + 1 / 100, on_axis (a + 1 / 100)))"
  by (simp add: next_piece_def MAX_SAMPLE_DIST_def)

lemma CheckHit_on_axis:
  "b \<le> 1000 \<Longrightarrow> currentsolids p \<noteq> [] \<Longrightarrow>
   CheckHit G0 (wall_world 2 1000 (- 1, 0, 0)) uniform_motion a (on_axis a) b (on_axis b) p 1
     = Inr (False, b, on_axis b, p)"
  by (simp add: CheckHit_no_collision wall_no_coll pass_OnStep_call)

lemma sample_loop_on_axis:
  "map_option (map_sum id pieces)
     (sample_loop (Suc (Suc 0)) G0 neutron None (wall_world 2 1000 (- 1, 0, 0)) uniform_motion
        (after_step on_axis (3 / 200) (particle_in [1])))
   = Some (Inr [(0, on_axis 0, 1 / 100, on_axis (1 / 100)),
                (1 / 100, on_axis (1 / 100), 3 / 200, on_axis (3 / 200))])"
  by (simp add: sample_step_def after_step_def next_piece_on_axis CheckHit_on_axis Let_def)

lemma pieces_on_axis:
  "(0 :: real) < 3 / 200
   \<and> next_piece uniform_motion (3 / 200) (on_axis (3 / 200)) 0 (on_axis 0) = (1 / 100, on_axis (1 / 100))
   \<and> (1 / 100 - 0) * speed (on_axis 0) = MAX_SAMPLE_DIST
   \<and> on_axis (1 / 100) = dense_out uniform_motion (1 / 100)
   \<and> (\<exists>s'. sample_loop (Suc (Suc 0)) G0 neutron None (wall_world 2 1000 (- 1, 0, 0)) uniform_motion
               (after_step on_axis (3 / 200) (particle_in [1])) = Some (Inr s')
           \<and> pieces s' = [(0, on_axis 0, 1 / 100, on_axis (1 / 100)),
                          (1 / 100, on_axis (1 / 100), 3 / 200, on_axis (3 / 200))]
           \<and> (3 / 200 - 1 / 100) * speed (on_axis (1 / 100)) \<le> MAX_SAMPLE_DIST)"
proof -
  let ?s0 = "after_step on_axis (3 / 200) (particle_in [1])"
  let ?w = "wall_world 2 1000 (- 1, 0, 0)"
  have np: "next_piece uniform_motion (3 / 200) (on_axis (3 / 200)) 0 (on_axis 0) = (1 / 100, on_axis (1 / 100))"
    by (simp add: next_piece_on_axis)
  from sample_loop_on_axis obtain s' where
    run: "sample_loop (Suc (Suc 0)) G0 neutron None ?w uniform_motion ?s0 = Some (Inr s')"
    and pcs: "pieces s' = [(0, on_axis 0, 1 / 100, on_axis (1 / 100)),
                          (1 / 100, on_axis (1 / 100), 3 / 200, on_axis (3 / 200))]"
    by (cases "sample_loop (Suc (Suc 0)) G0 neutron None ?w uniform_motion ?s0")
       (auto simp: map_sum_def split: sum.splits)
  have e: "pieces ?s0 = []" by (simp add: after_step_def)
  from pieces_bounded_by_start_speed[where ?x1.0=0 and x="3 / 200" and stp=uniform_motion and y="on_axis (3 / 200)"
      and ?y1.0="on_axis 0" and ?x2.0="1 / 100" and ?y2.0="on_axis (1 / 100)"
      and n="Suc (Suc 0)" and gl=G0 and sp=neutron and field=None and w="?w" and s="?s0" and s'=s']
    np run pcs e
  show ?thesis by auto
qed

text \<open>
  Claim C2, at an input where it fails. The source says of \<^verbatim>\<open>MAX_SAMPLE_DIST\<close> that
  it is the "max spatial distance of reflection checks", and of the inner loop that it
  splits the step "in pieces (x1,y1->x2,y2) with spatial length SAMPLE_DIST"; the loop
  bounds the time of a piece with the speed at its start instead. A particle in free
  fall has the speed 1 at the start of the step, so the first piece of the step from
  \<open>t = 0\<close> to \<open>t = 0.02\<close> lasts \<open>0.01 / 1\<close> and is the piece handed to the collision
  resolver; the particle speeds up, and the two ends of the piece are further apart
  than \<^verbatim>\<open>MAX_SAMPLE_DIST\<close>.
\<close>

theorem piece_longer_than_MAX_SAMPLE_DIST:
  "map_sum id pieces
     (sample_step G0 neutron (Some pulse) (wall_world 2 1000 (- 1, 0, 0)) falling
        (after_step fall (1 / 50) dropped))
     = Inr [(0, fall 0, 1 / 100, fall (1 / 100))]
   \<and> speed (fall 0) = 1
   \<and> MAX_SAMPLE_DIST < distance (fall 0) (fall (1 / 100))"
proof -
  have "map_sum id pieces
     (sample_step G0 neutron (Some pulse) (wall_world 2 1000 (- 1, 0, 0)) falling
        (after_step fall (1 / 50) dropped))
     = Inr [(0, fall 0, 1 / 100, fall (1 / 100))]"
    by (simp add: sample_step_def after_step_def next_piece_fall CheckHit_fall Let_def)
  moreover have "speed (fall 0) = 1" using speed_fall[of 0] by simp
  moreover have "MAX_SAMPLE_DIST < distance (fall 0) (fall (1 / 100))"
    unfolding distance_fall by (simp add: MAX_SAMPLE_DIST_def G0_def)
  ultimately show ?thesis by simp
qed

lemma Ekin_fall:
  assumes "0 \<le> t" "t \<le> 1"
  shows "Ekin G0 neutron (fall t) = sp_m neutron / 2 * ((1 + gravconst G0 * t) * (1 + gravconst G0 * t))"
proof -
  have "speed (fall t) \<le> 1 + gravconst G0 * 1"
    unfolding speed_fall[OF assms(1)] using assms(2) by (simp add: G0_def)
  then have "speed (fall t) / c_0 G0 < RELATIVISTIC_THRESHOLD G0"
    by (simp add: G0_def)
  from Ekin_nonrel[OF this] show ?thesis
    by (simp add: algebra_simps)
qed

lemma Epot_fall:
  "Epot G0 neutron t (fall u) 1 (Some pulse)
     = - sp_mu neutron / ele_e G0 * BField_abs pulse 0 0 (y_2 (fall u)) t
       + sp_m neutron * gravconst G0 * y_2 (fall u)"
  by (simp add: Epot_def neutron_def)

lemma energy_fall:
  assumes "0 \<le> u" "u \<le> 1"
  shows "Ekin G0 neutron (fall u) + Epot G0 neutron t (fall u) 1 (Some pulse)
     = sp_m neutron / 2 - sp_mu neutron / ele_e G0 * BField_abs pulse 0 0 (y_2 (fall u)) t"
  unfolding Ekin_fall[OF assms] Epot_fall
  by (simp add: algebra_simps)

lemma Hstart_dropped: "Hstart G0 neutron (Some pulse) dropped = sp_m neutron / 2"
  using energy_fall[of 0 0] by (simp add: Hstart_def pulse_def)

text \<open>
  What holds of the maximal energy: \<^verbatim>\<open>InitV\<close> sets \<^verbatim>\<open>Hmax\<close> to the start energy,
  and no pass of the loops lowers it. The energy that a pass compares it with, however,
  takes the potential energy at the time \<^verbatim>\<open>x\<close>, the end of the accepted step, not
  at the time of the point \<open>y2\<close>.
\<close>

lemma integration_step_Hmax:
  assumes "integration_step n gl sp field w stepper tmax s = Some (Inr s')"
  shows "Hmax (self s) \<le> Hmax (self s')"
proof -
  define h2 where "h2 = (let h1 = (if loc_x s + loc_h s > tstart (self s) + tau (self s)
                                   then tstart (self s) + tau (self s) - loc_x s else loc_h s)
                         in if loc_x s + h1 > tmax then tmax - loc_x s else h1)"
  define s1 where "s1 = (case stepper_step stepper h2 (loc_x s) (loc_y s) (loc_k s) of
                  None \<Rightarrow> s\<lparr> loc_x1 := loc_x s, loc_y1 := loc_y s, loc_h := h2,
                             self := (self s)\<lparr> pID := ID_NRERROR \<rparr> \<rparr>
                | Some (x', y', k') \<Rightarrow>
                    s\<lparr> loc_x := x', loc_y := y', loc_x1 := loc_x s, loc_y1 := loc_y s,
                       loc_h := h2, loc_k := k', self := (self s)\<lparr> Nstep := Nstep (self s) + 1 \<rparr> \<rparr>)"
  have m1: "Hmax (self s1) = Hmax (self s)"
    by (auto simp: s1_def split: option.splits)
  from assms obtain s2 where
    loop: "sample_loop n gl sp field w (stepper_view stepper (loc_k s1)) s1 = Some (Inr s2)"
    and s': "Hmax (self s') = Hmax (self s2)"
    by (auto simp: integration_step_def Let_def s1_def h2_def split: option.splits sum.splits if_splits)
  from sample_loop_Hmax[OF loop] m1 s' show ?thesis by simp
qed

lemma Integrate_loop_Hmax:
  "Integrate_loop m n gl sp field w stepper tmax s = Some (Inr s') \<Longrightarrow>
    Hmax (self s) \<le> Hmax (self s')"
proof (induction m arbitrary: s)
  case 0
  then show ?case by (auto split: if_splits)
next
  case (Suc m)
  show ?case
  proof (cases "pID (self s) = ID_UNKNOWN")
    case False
    with Suc.prems show ?thesis by auto
  next
    case True
    with Suc.prems(1) obtain s1 where s1: "integration_step n gl sp field w stepper tmax s = Some (Inr s1)"
      and rest: "Integrate_loop m n gl sp field w stepper tmax s1 = Some (Inr s')"
      by (auto split: sum.splits option.splits)
    from integration_step_Hmax[OF s1] Suc.IH[OF rest] show ?thesis by simp
  qed
qed


text \<open>
  Claim C6, at the failing input. The particle falls in a homogeneous magnetic field
  that is on from \<open>t = 0.005\<close> to \<open>t = 0.015\<close>, and the stepper has accepted the
  step from \<open>t = 0\<close> to \<open>t = 0.02\<close>. The first pass of the inner loop emits the
  track point at \<open>t = 0.01\<close>, where the field is on, but takes the potential energy
  at the end \<open>x = 0.02\<close> of the step, where the field is off: \<^verbatim>\<open>Hmax\<close> is still
  the start energy and lies below the total energy of the track point.
\<close>

theorem Hmax_below_track_energy:
  "map_sum id (\<lambda>s. (loc_x s, loc_x1 s, loc_y1 s, Hmax (self s)))
     (sample_step G0 neutron (Some pulse) (wall_world 2 1000 (- 1, 0, 0)) falling
        (after_step fall (1 / 50) dropped))
     = Inr (1 / 50, 1 / 100, fall (1 / 100), Hstart G0 neutron (Some pulse) dropped)
   \<and> Hstart G0 neutron (Some pulse) dropped
       < track_H G0 neutron (Some pulse) (1 / 100) (fall (1 / 100)) (polend dropped)"
proof -
  have e1: "Ekin G0 neutron (fall (1 / 100)) + Epot G0 neutron (1 / 50) (fall (1 / 100)) 1 (Some pulse)
          = sp_m neutron / 2"
    using energy_fall[of "1 / 100" "1 / 50"] by (simp add: pulse_def)
  have e2: "track_H G0 neutron (Some pulse) (1 / 100) (fall (1 / 100)) 1
          = sp_m neutron / 2 - sp_mu neutron / ele_e G0"
    using energy_fall[of "1 / 100" "1 / 100"] by (simp add: pulse_def track_H_def)
  have "map_sum id (\<lambda>s. (loc_x s, loc_x1 s, loc_y1 s, Hmax (self s)))
     (sample_step G0 neutron (Some pulse) (wall_world 2 1000 (- 1, 0, 0)) falling
        (after_step fall (1 / 50) dropped))
     = Inr (1 / 50, 1 / 100, fall (1 / 100), Hstart G0 neutron (Some pulse) dropped)"
    by (simp add: sample_step_def after_step_def next_piece_fall CheckHit_fall Let_def e1 Hstart_dropped)
  moreover have "Hstart G0 neutron (Some pulse) dropped
       < track_H G0 neutron (Some pulse) (1 / 100) (fall (1 / 100)) (polend dropped)"
    unfolding Hstart_dropped using e2 by (simp add: neutron_def G0_def)
  ultimately show ?thesis by simp
qed
subsection \<open>The resolver returns with the default solid in the set\<close>

lemma not_isl_Inr: "\<not> isl r \<Longrightarrow> \<exists>x. r = Inr x"
  by (cases r) auto

lemma call_OnStep_total:
  "currentsolids p \<noteq> [] \<Longrightarrow> \<not> isl (call_OnStep w x1 y1 x2 y2 p)"
  by (simp add: call_OnStep_def Let_def)

lemma after_hit_total:
  "currentsolids p \<noteq> [] \<Longrightarrow> \<not> isl (after_hit w reset x1 y1 x2 y2 p)"
  by (simp add: after_hit_def call_OnStep_total)

lemma two_members: "a \<in> set xs \<Longrightarrow> b \<in> set xs \<Longrightarrow> a \<noteq> b \<Longrightarrow> 2 \<le> length xs"
proof -
  assume "a \<in> set xs" "b \<in> set xs" "a \<noteq> b"
  then have "{a, b} \<subseteq> set xs" "card {a, b} = 2" by auto
  then have "2 \<le> card (set xs)" by (metis card_mono List.finite_set)
  then show ?thesis using card_length[of xs] by linarith
qed

lemma hit_entering_total:
  "d \<in> set (currentsolids p) \<Longrightarrow> \<not> isl (hit_entering w x1 y1 x2 y2 coll p)"
proof -
  assume d: "d \<in> set (currentsolids p)"
  then have ne: "currentsolids p \<noteq> []" by auto
  show ?thesis
    using ne
    by (simp add: hit_entering_def numerical_error_def Let_def after_hit_total)
qed

lemma hit_leaving_total:
  "d \<in> set (currentsolids p) \<Longrightarrow> ID (geom_solids w (coll_ID coll)) \<noteq> d \<Longrightarrow>
   \<not> isl (hit_leaving w x1 y1 x2 y2 coll p)"
proof -
  assume d: "d \<in> set (currentsolids p)" and hd: "ID (geom_solids w (coll_ID coll)) \<noteq> d"
  then have ne: "currentsolids p \<noteq> []" by auto
  have len: "ID (geom_solids w (coll_ID coll)) \<in> set (currentsolids p) \<Longrightarrow> \<not> length (currentsolids p) < 2"
    using two_members[OF _ d hd] by auto
  have rm: "remove1 (ID (geom_solids w (coll_ID coll))) (currentsolids p) \<noteq> []"
    using d hd by (metis empty_iff in_set_remove1 list.set(1))
  show ?thesis
    using ne len rm
    by (auto simp add: hit_leaving_def numerical_error_def Let_def ptr_ID_def after_hit_total)
qed

lemma localised_total:
  "d \<in> set (currentsolids p) \<Longrightarrow> ID (geom_solids w (coll_ID coll)) \<noteq> d \<Longrightarrow>
   \<not> isl (localised w x1 y1 x2 y2 colls coll p)"
  by (simp add: localised_def numerical_error_def hit_entering_total hit_leaving_total)

lemma bisect_total:
  assumes rec: "\<And>xa ya xb yb pa. d \<in> set (currentsolids pa) \<Longrightarrow> \<not> isl (rec xa ya xb yb pa)"
    and keeps: "\<And>xa ya xb yb pa changed x2' y2' p'.
            rec xa ya xb yb pa = Inr (changed, x2', y2', p') \<Longrightarrow>
            d \<in> set (currentsolids pa) \<Longrightarrow> d \<in> set (currentsolids p')"
    and mem: "d \<in> set (currentsolids p)"
  shows "\<not> isl (bisect rec stp x1 y1 x2 y2 s iteration p)"
proof -
  define xnew where "xnew = x1 + (x2 - x1) * s * (1 - 0.01 * real_of_int iteration)"
  have cb_eq: "cut_before rec stp x1 y1 x2 s iteration p =
      (if xnew > x1 \<and> xnew < x2
       then (case rec x1 y1 xnew (dense_out stp xnew) p of
              Inl e \<Rightarrow> Inl e
            | Inr (changed, xbisect1, ybisect1, p1) \<Rightarrow>
                Inr (changed, xbisect1, ybisect1, xnew, dense_out stp xnew, p1))
       else Inr (False, x1, y1, x1, y1, p))"
    by (simp only: cut_before_def Let_def xnew_def)
  have "\<not> isl (cut_before rec stp x1 y1 x2 s iteration p)"
  proof (cases "xnew > x1 \<and> xnew < x2")
    case True
    from rec[OF mem, of x1 y1 xnew "dense_out stp xnew"] obtain r where
      "rec x1 y1 xnew (dense_out stp xnew) p = Inr r" using not_isl_Inr by blast
    with True show ?thesis
      unfolding cb_eq by (cases r) simp
  next
    case False
    then show ?thesis unfolding cb_eq by auto
  qed
  then obtain c1 xb1 yb1 xb2 yb2 p1 where
    cb: "cut_before rec stp x1 y1 x2 s iteration p = Inr (c1, xb1, yb1, xb2, yb2, p1)"
    by (metis not_isl_Inr prod_cases6)
  have p1: "d \<in> set (currentsolids p1)"
    using cb mem keeps
    by (auto simp: cut_before_def Let_def split: if_splits sum.splits)
  show ?thesis
  proof (cases c1)
    case True
    with cb show ?thesis by (simp add: bisect_def)
  next
    case False
    have "\<not> isl (cut_after rec stp x1 x2 s iteration xb1 yb1 xb2 yb2 p1)"
      using rec[OF p1] by (simp add: cut_after_def Let_def)
    then obtain c2 xc yc p2 where
      ca: "cut_after rec stp x1 x2 s iteration xb1 yb1 xb2 yb2 p1 = Inr (c2, xc, yc, p2)"
      by (metis not_isl_Inr prod_cases4)
    have p2: "d \<in> set (currentsolids p2)"
      using ca p1 keeps by (auto simp: cut_after_def Let_def split: if_splits)
    show ?thesis
    proof (cases c2)
      case True
      with cb ca False show ?thesis by (simp add: bisect_def)
    next
      case c2: False
      from rec[OF p2, of xc yc x2 y2] cb ca False c2 show ?thesis
        by (simp add: bisect_def)
    qed
  qed
qed

lemma CheckHit_total:
  "\<forall>x1 y1 h y2. \<forall>c \<in> set (Collisions w x1 y1 h y2). ID (geom_solids w (coll_ID c)) \<noteq> d \<Longrightarrow>
   d \<in> set (currentsolids (p :: 'u TParticle)) \<Longrightarrow>
   \<not> isl (CheckHit gl w stp x1 y1 x2 y2 p iteration)"
proof (induction gl w stp x1 y1 x2 y2 p iteration rule: CheckHit.induct)
  case (1 gl w stp x1 y1 x2 y2 p iteration)
  note nohit = "1.prems"(1) and mem = "1.prems"(2)
  from mem have ne: "currentsolids p \<noteq> []" by auto
  show ?case
  proof (cases "CheckSegment w y1 y2")
    case False
    then show ?thesis by (simp add: CheckHit_outside)
  next
    case inside: True
    show ?thesis
    proof (cases "Collisions w x1 y1 (hdid stp) y2")
      case Nil
      with inside ne show ?thesis
        by (simp add: CheckHit_no_collision call_OnStep_total)
    next
      case (Cons coll rest)
      show ?thesis
      proof (cases "is_localised gl y1 y2 (coll # rest) coll iteration")
        case True
        have "ID (geom_solids w (coll_ID coll)) \<noteq> d"
          using nohit Cons by (metis list.set_intros(1))
        with inside Cons True mem show ?thesis
          by (simp add: CheckHit_localised localised_total)
      next
        case False
        have "\<not> isl (bisect (\<lambda>xa ya xb yb pa. CheckHit gl w stp xa ya xb yb pa (iteration + 1))
                   stp x1 y1 x2 y2 (coll_s coll) iteration p)"
        proof (rule bisect_total[OF _ _ mem])
          fix xa ya xb yb and pa :: "'u TParticle"
          assume pa: "d \<in> set (currentsolids pa)"
          show "\<not> isl (CheckHit gl w stp xa ya xb yb pa (iteration + 1))"
            using "1.IH" Cons False nohit pa inside by blast
        next
          fix xa ya xb yb pa changed x2' y2' p'
          assume "CheckHit gl w stp xa ya xb yb pa (iteration + 1) = Inr (changed, x2', y2', p')"
            and "d \<in> set (currentsolids pa)"
          then show "d \<in> set (currentsolids p')"
            using CheckHit_keeps[OF nohit] by blast
        qed
        with inside Cons False show ?thesis
          by (simp add: CheckHit_unresolved)
      qed
    qed
  qed
qed


text \<open>
  Claim C7. The containment query returns a list that starts from the default solid
  and, when no record of the ray carries the ID of the default solid, still holds it, so
  it is not empty. \<^verbatim>\<open>InitV\<close> keeps a solid that the set holds, or that the
  geometry reports when the set is empty. When no collision record ever carries the ID
  \<open>d\<close> (the default solid has no mesh) and the current-solid set holds \<open>d\<close>,
  the collision resolver returns (it dereferences no end iterator) with a set that
  holds \<open>d\<close>, and so does every run of the loop of the integrator that returns: the
  set is never empty.
\<close>

theorem default_solid_stays:
  "(GetSolids tol g t pt = Inr r
      \<and> (\<forall>c \<in> set (Collision g pt (fst (bbox_min g) - tol, fst (snd (bbox_min g)) - tol,
                                       snd (snd (bbox_min g)) - tol)).
             coll_ID c \<noteq> ID (defaultsolid g))
      \<longrightarrow> (defaultsolid g, False) \<in> set r \<and> r \<noteq> [])
   \<and> ((if currentsolids p0 = []
        then d \<in> set (InitialSolids w t \<lparr> y_0 = x, y_1 = y, y_2 = z, y_3 = vx, y_4 = vy, y_5 = vz \<rparr>)
        else d \<in> set (currentsolids p0))
       \<longrightarrow> d \<in> set (currentsolids (InitV gl sp field w t atau x y z vx vy vz pol trajl p0)))
   \<and> ((\<forall>x1 y1 h y2. \<forall>c \<in> set (Collisions w x1 y1 h y2). ID (geom_solids w (coll_ID c)) \<noteq> d)
        \<and> d \<in> set (currentsolids p)
       \<longrightarrow> (\<exists>changed x2' y2' p'.
              CheckHit gl w stp x1 y1 x2 y2 p iteration = Inr (changed, x2', y2', p')
              \<and> d \<in> set (currentsolids p') \<and> currentsolids p' \<noteq> [])
           \<and> (self s = p \<and> Integrate_loop m n gl sp field w stepper tmax s = Some (Inr s')
                \<longrightarrow> d \<in> set (currentsolids (self s')) \<and> currentsolids (self s') \<noteq> []))"
proof -
  have A: "GetSolids tol g t pt = Inr r
      \<and> (\<forall>c \<in> set (Collision g pt (fst (bbox_min g) - tol, fst (snd (bbox_min g)) - tol,
                                       snd (snd (bbox_min g)) - tol)).
             coll_ID c \<noteq> ID (defaultsolid g))
      \<longrightarrow> (defaultsolid g, False) \<in> set r \<and> r \<noteq> []"
  proof
    assume a: "GetSolids tol g t pt = Inr r
      \<and> (\<forall>c \<in> set (Collision g pt (fst (bbox_min g) - tol, fst (snd (bbox_min g)) - tol,
                                       snd (snd (bbox_min g)) - tol)).
             coll_ID c \<noteq> ID (defaultsolid g))"
    then have "(defaultsolid g, False) \<in> set r"
      by (intro GetSolids_default[of tol g t pt r]) (simp_all add: list_all_iff)
    then show "(defaultsolid g, False) \<in> set r \<and> r \<noteq> []" by auto
  qed
  have B: "(if currentsolids p0 = []
        then d \<in> set (InitialSolids w t \<lparr> y_0 = x, y_1 = y, y_2 = z, y_3 = vx, y_4 = vy, y_5 = vz \<rparr>)
        else d \<in> set (currentsolids p0))
       \<longrightarrow> d \<in> set (currentsolids (InitV gl sp field w t atau x y z vx vy vz pol trajl p0))"
    using InitV_keeps[of p0 d w t x y z vx vy vz gl sp field atau pol trajl] by blast
  have C: "(\<forall>x1 y1 h y2. \<forall>c \<in> set (Collisions w x1 y1 h y2). ID (geom_solids w (coll_ID c)) \<noteq> d)
        \<and> d \<in> set (currentsolids p)
       \<longrightarrow> (\<exists>changed x2' y2' p'.
              CheckHit gl w stp x1 y1 x2 y2 p iteration = Inr (changed, x2', y2', p')
              \<and> d \<in> set (currentsolids p') \<and> currentsolids p' \<noteq> [])
           \<and> (self s = p \<and> Integrate_loop m n gl sp field w stepper tmax s = Some (Inr s')
                \<longrightarrow> d \<in> set (currentsolids (self s')) \<and> currentsolids (self s') \<noteq> [])"
  proof
    assume a: "(\<forall>x1 y1 h y2. \<forall>c \<in> set (Collisions w x1 y1 h y2). ID (geom_solids w (coll_ID c)) \<noteq> d)
        \<and> d \<in> set (currentsolids p)"
    then have nohit: "\<forall>x1 y1 h y2. \<forall>c \<in> set (Collisions w x1 y1 h y2). ID (geom_solids w (coll_ID c)) \<noteq> d"
      and mem: "d \<in> set (currentsolids p)" by simp_all
    from CheckHit_total[OF nohit mem, of gl stp x1 y1 x2 y2 iteration]
    obtain changed x2' y2' p' where
      r: "CheckHit gl w stp x1 y1 x2 y2 p iteration = Inr (changed, x2', y2', p')"
      by (metis not_isl_Inr prod_cases4)
    from CheckHit_keeps[OF nohit r mem] have "d \<in> set (currentsolids p') \<and> currentsolids p' \<noteq> []"
      by auto
    with r have 1: "\<exists>changed x2' y2' p'.
              CheckHit gl w stp x1 y1 x2 y2 p iteration = Inr (changed, x2', y2', p')
              \<and> d \<in> set (currentsolids p') \<and> currentsolids p' \<noteq> []" by blast
    have 2: "self s = p \<and> Integrate_loop m n gl sp field w stepper tmax s = Some (Inr s')
                \<longrightarrow> d \<in> set (currentsolids (self s')) \<and> currentsolids (self s') \<noteq> []"
      using Integrate_loop_keeps[OF nohit, of m n gl sp field stepper tmax s s'] mem by auto
    from 1 2 show "(\<exists>changed x2' y2' p'.
              CheckHit gl w stp x1 y1 x2 y2 p iteration = Inr (changed, x2', y2', p')
              \<and> d \<in> set (currentsolids p') \<and> currentsolids p' \<noteq> [])
           \<and> (self s = p \<and> Integrate_loop m n gl sp field w stepper tmax s = Some (Inr s')
                \<longrightarrow> d \<in> set (currentsolids (self s')) \<and> currentsolids (self s') \<noteq> [])"
      by blast
  qed
  from A B C show ?thesis by blast
qed


lemma GetSolids_shutter:
  "GetSolids (1 / 100000000) shutter_geometry 0 (0, 0, 1)
     = Inr [(defaultsolid shutter_geometry, False), (shutter, False)]"
  by (simp add: GetSolids_def GetCollisions_def GetSolid_def shutter_geometry_def shutter_def
      shutter_coll_def is_ignored_def)

lemma grazing_nohit:
  "\<forall>x1 y1 h y2. \<forall>c \<in> set (Collisions (wall_world 2 a n) x1 y1 h y2).
      ID (geom_solids (wall_world 2 a n) (coll_ID c)) \<noteq> 1"
  by (simp add: wall_world_def)

lemma grazing_CheckHit1:
  assumes "currentsolids p = [1]"
  shows "CheckHit G0 (wall_world 2 (1 / 200) (- (1 / 1000000), 0, - 1)) uniform_motion
           0 (on_axis 0) (1 / 100) (on_axis (1 / 100)) p 1
         = Inr (False, 1 / 100, on_axis (1 / 100), p\<lparr>currentsolids := [1, 2]\<rparr>)"
proof -
  let ?w = "wall_world 2 (1 / 200) (- (1 / 1000000), 0, - 1)"
  let ?c = "\<lparr> coll_s = 1 / 2, coll_normal = (- (1 / 1000000), 0, - 1), coll_ID = 2 \<rparr>"
  have b: "Collisions ?w 0 (on_axis 0) (hdid uniform_motion) (on_axis (1 / 100)) = ?c # []"
    by (simp add: wall_coll)
  have dn: "distnormal (on_axis 0) (on_axis (1 / 100)) ?c = - (1 / 100000000)"
    by (simp add: distnormal_def)
  have l: "is_localised G0 (on_axis 0) (on_axis (1 / 100)) (?c # []) ?c 1"
    unfolding is_localised_def dn by (simp add: G0_def)
  show ?thesis
    unfolding CheckHit_localised[OF wall_fields(1) b l] localised_def dn
    using assms by (simp add: pass_OnHit_entering insort_insert_key_def)
qed

lemma grazing_CheckHit2:
  assumes "currentsolids p \<noteq> []"
  shows "CheckHit G0 (wall_world 2 (1 / 200) (- (1 / 1000000), 0, - 1)) uniform_motion
           (1 / 100) (on_axis (1 / 100)) (3 / 200) (on_axis (3 / 200)) p 1
         = Inr (False, 3 / 200, on_axis (3 / 200), p)"
  using assms by (simp add: CheckHit_no_collision wall_no_coll pass_OnStep_call)

lemma particle_in_sel2 [simp]:
  "tstart (particle_in cs) = 0" "tau (particle_in cs) = 1000" "maxtraj (particle_in cs) = 1000"
  "tend (particle_in cs) = 0" "yend (particle_in cs) = on_axis 0"
  by (simp_all add: particle_in_def)

lemma Integrate_loop_grazing:
  "map_option (map_sum id (\<lambda>s. (pID (self s), currentsolids (self s))))
     (Integrate_loop (Suc 0) (Suc (Suc 0)) G0 neutron None
        (wall_world 2 (1 / 200) (- (1 / 1000000), 0, - 1)) free_flight (3 / 200)
        (at_start (3 / 200) (particle_in [1])))
   = Some (Inr (ID_NOT_FINISH, [1, 2]))"
  by (simp add: integration_step_def at_start_def free_flight_def Let_def sample_step_def
      next_piece_on_axis grazing_CheckHit1 grazing_CheckHit2 ID_UNKNOWN_def ID_NOT_FINISH_def)


theorem default_solid_stays_witness:
  "GetSolids (1 / 100000000) shutter_geometry 0 (0, 0, 1)
     = Inr [(defaultsolid shutter_geometry, False), (shutter, False)]
   \<and> (defaultsolid shutter_geometry, False)
        \<in> set [(defaultsolid shutter_geometry, False), (shutter, False)]
   \<and> 1 \<in> set (currentsolids
         (InitV G0 neutron None (wall_world 2 (1 / 200) (- (1 / 1000000), 0, - 1))
            0 1000 0 0 0 1 0 0 0 1000 (particle_in [])))
   \<and> CheckHit G0 (wall_world 2 (1 / 200) (- (1 / 1000000), 0, - 1)) uniform_motion
           0 (on_axis 0) (1 / 100) (on_axis (1 / 100)) (particle_in [1]) 1
         = Inr (False, 1 / 100, on_axis (1 / 100), (particle_in [1])\<lparr>currentsolids := [1, 2]\<rparr>)
   \<and> (\<exists>s'. Integrate_loop (Suc 0) (Suc (Suc 0)) G0 neutron None
              (wall_world 2 (1 / 200) (- (1 / 1000000), 0, - 1)) free_flight (3 / 200)
              (at_start (3 / 200) (particle_in [1])) = Some (Inr s')
           \<and> pID (self s') = ID_NOT_FINISH
           \<and> currentsolids (self s') = [1, 2]
           \<and> 1 \<in> set (currentsolids (self s')))"
proof -
  let ?w = "wall_world 2 (1 / 200) (- (1 / 1000000), 0, - 1)"
  let ?s0 = "at_start (3 / 200) (particle_in [1])"
  have ga: "\<forall>c \<in> set (Collision shutter_geometry (0, 0, 1)
                 (fst (bbox_min shutter_geometry) - 1 / 100000000,
                  fst (snd (bbox_min shutter_geometry)) - 1 / 100000000,
                  snd (snd (bbox_min shutter_geometry)) - 1 / 100000000)).
             coll_ID c \<noteq> ID (defaultsolid shutter_geometry)"
    by (simp add: shutter_geometry_def shutter_coll_def shutter_def)
  have iv: "(if currentsolids (particle_in []) = []
        then 1 \<in> set (InitialSolids ?w 0 \<lparr> y_0 = 0, y_1 = 0, y_2 = 0, y_3 = 1, y_4 = 0, y_5 = 0 \<rparr>)
        else 1 \<in> set (currentsolids (particle_in [])))"
    by (simp add: wall_world_def)
  have mem: "1 \<in> set (currentsolids (particle_in [1]))" by simp
  have self0: "self ?s0 = particle_in [1]" by (simp add: at_start_def)
  from Integrate_loop_grazing obtain s' where
    run: "Integrate_loop (Suc 0) (Suc (Suc 0)) G0 neutron None ?w free_flight (3 / 200) ?s0 = Some (Inr s')"
    and fin: "pID (self s') = ID_NOT_FINISH" "currentsolids (self s') = [1, 2]"
    by (cases "Integrate_loop (Suc 0) (Suc (Suc 0)) G0 neutron None ?w free_flight (3 / 200) ?s0")
       (auto simp: map_sum_def split: sum.splits)
  have ch: "CheckHit G0 ?w uniform_motion 0 (on_axis 0) (1 / 100) (on_axis (1 / 100)) (particle_in [1]) 1
         = Inr (False, 1 / 100, on_axis (1 / 100), (particle_in [1])\<lparr>currentsolids := [1, 2]\<rparr>)"
    by (simp add: grazing_CheckHit1)
  note T = default_solid_stays[where tol="1 / 100000000" and g=shutter_geometry and t=0 and pt="(0, 0, 1)"
      and r="[(defaultsolid shutter_geometry, False), (shutter, False)]"
      and ?p0.0="particle_in []" and d=1 and w="?w"
      and x=0 and y=0 and z=0 and vx=1 and vy=0 and vz=0
      and gl=G0 and sp=neutron and field=None and atau=1000 and pol=0 and trajl=1000
      and p="particle_in [1]" and s="?s0" and s'=s'
      and m="Suc 0" and n="Suc (Suc 0)" and stepper=free_flight and tmax="3 / 200"
      and stp=uniform_motion and ?x1.0=0 and ?y1.0="on_axis 0" and ?x2.0="1 / 100"
      and ?y2.0="on_axis (1 / 100)" and iteration=1]
  have 1: "(defaultsolid shutter_geometry, False)
        \<in> set [(defaultsolid shutter_geometry, False), (shutter, False)]"
    using T GetSolids_shutter ga by blast
  have 2: "1 \<in> set (currentsolids (InitV G0 neutron None ?w 0 1000 0 0 0 1 0 0 0 1000 (particle_in [])))"
    using T iv by blast
  have 3: "1 \<in> set (currentsolids (self s'))"
    using T grazing_nohit[of "1 / 200" "(- (1 / 1000000), 0, - 1)"] mem self0 run by blast
  from GetSolids_shutter 1 2 ch run fin 3 show ?thesis by blast
qed

end
